theory Spec2Isabelle
  imports Complex_Main
begin

section \<open>Python strings\<close>

text \<open>
  A Python \<open>str\<close> is modelled as a \<open>string\<close> whose characters are the code points
  U+0000 to U+00FF.  The character classes below are the ones the regular expressions of
  \<open>scraper_core.py\<close> use on \<open>str\<close> patterns, restricted to that range: \<open>\s\<close> is
  \<open>str.isspace\<close>, \<open>\w\<close> is \<open>str.isalnum\<close> or an underscore, \<open>\d\<close> is a decimal digit.
\<close>

definition py_isspace :: "char \<Rightarrow> bool" where
  "py_isspace c =
     (let n = (of_char c :: nat)
      in (9 \<le> n \<and> n \<le> 13) \<or> (28 \<le> n \<and> n \<le> 32) \<or> n = 133 \<or> n = 160)"

definition py_isdigit :: "char \<Rightarrow> bool" where
  "py_isdigit c = (let n = (of_char c :: nat) in 48 \<le> n \<and> n \<le> 57)"

definition py_isalnum :: "char \<Rightarrow> bool" where
  "py_isalnum c =
     (let n = (of_char c :: nat)
      in (48 \<le> n \<and> n \<le> 57) \<or> (65 \<le> n \<and> n \<le> 90) \<or> (97 \<le> n \<and> n \<le> 122)
         \<or> n = 170 \<or> n = 178 \<or> n = 179 \<or> n = 181 \<or> n = 185 \<or> n = 186
         \<or> (188 \<le> n \<and> n \<le> 190) \<or> (192 \<le> n \<and> n \<le> 214)
         \<or> (216 \<le> n \<and> n \<le> 246) \<or> (248 \<le> n \<and> n \<le> 255))"

definition re_word :: "char \<Rightarrow> bool" where
  "re_word c = (py_isalnum c \<or> c = CHR ''_'')"

text \<open>\<open>s.strip()\<close>\<close>

definition py_strip :: "string \<Rightarrow> string" where
  "py_strip s = rev (dropWhile py_isspace (rev (dropWhile py_isspace s)))"

text \<open>\<open>s.split(sep)\<close> for a separator of one character.\<close>

fun py_split :: "char \<Rightarrow> string \<Rightarrow> string list" where
  "py_split sep [] = [[]]"
| "py_split sep (c # cs) =
     (if c = sep then [] # py_split sep cs
      else (case py_split sep cs of
              [] \<Rightarrow> [[c]]
            | w # ws \<Rightarrow> (c # w) # ws))"

text \<open>\<open>str(n)\<close> for an integer.\<close>

fun digits :: "nat \<Rightarrow> string" where
  "digits n =
     (if n < 10 then [char_of (48 + n)]
      else digits (n div 10) @ [char_of (48 + n mod 10)])"

declare digits.simps [simp del]

definition py_str_int :: "int \<Rightarrow> string" where
  "py_str_int i = (if i < 0 then CHR ''-'' # digits (nat (- i)) else digits (nat i))"

text \<open>\<open>re.sub(r'\s+', ' ', text)\<close>: every maximal run of whitespace becomes one space.\<close>

fun sub_spaces :: "string \<Rightarrow> string" where
  "sub_spaces [] = []"
| "sub_spaces [c] = (if py_isspace c then [CHR '' ''] else [c])"
| "sub_spaces (c # d # cs) =
     (if py_isspace c
      then (if py_isspace d then sub_spaces (d # cs) else CHR '' '' # sub_spaces (d # cs))
      else c # sub_spaces (d # cs))"

text \<open>
  \<open>re.match(r'(.+)::attr\((.+)\)', selector)\<close>.  Both groups are greedy and \<open>.\<close> matches
  every character but the newline, so the first group is the longest prefix on the first
  line that is followed by \<open>::attr(\<close> and a match of the second group, and the second
  group is the longest run on that line that a closing parenthesis follows.
\<close>

definition attr_group2 :: "string \<Rightarrow> string option" where
  "attr_group2 t =
     (let line = takeWhile (\<lambda>c. c \<noteq> CHR 0x0A) t
      in map_option (\<lambda>j. take j t)
           (List.find (\<lambda>j. j < length t \<and> t ! j = CHR '')'') (rev [1..<Suc (length line)])))"

definition attr_match :: "string \<Rightarrow> (string \<times> string) option" where
  "attr_match s =
     (let line = takeWhile (\<lambda>c. c \<noteq> CHR 0x0A) s
      in case List.find
                (\<lambda>i. take 7 (drop i s) = ''::attr('' \<and> attr_group2 (drop (i + 7) s) \<noteq> None)
                (rev [1..<Suc (length line)]) of
           None \<Rightarrow> None
         | Some i \<Rightarrow> map_option (\<lambda>g. (take i s, g)) (attr_group2 (drop (i + 7) s)))"

section \<open>The data model\<close>

subsection \<open>Configuration\<close>

text \<open>
  The YAML mapping that \<open>yaml.safe_load\<close> returns.  A field is \<open>None\<close> when the mapping
  has no such key; the nested mappings are typed by the keys the scraper reads.
\<close>

record pagination_cfg =
  pg_type :: "string option"
  param_name :: "string option"
  max_pages :: "int option"

record extraction_cfg =
  clean_text_opt :: "bool option"
  parse_price_opt :: "bool option"
  default_currency :: "string option"
  extract_all_images :: "bool option"

record error_handling_cfg =
  skip_on_error :: "bool option"
  log_errors :: "bool option"

text \<open>The delay is a finite number of seconds.\<close>

record rate_cfg =
  delay_between_pages :: "real option"

record detail_selectors =
  sel_name :: "string option"
  sel_description :: "string option"
  sel_brand :: "string option"
  sel_sub_category :: "string option"
  sel_price :: "string option"
  sel_currency :: "string option"
  sel_attributes :: "(string \<times> string) list option"
  sel_features :: "string option"
  sel_image_url :: "string option"
  sel_image_urls_all :: "string option"

record selectors_cfg =
  product_links :: "string option"
  product_detail :: "detail_selectors option"

record raw_config =
  raw_site_name :: "string option"
  raw_category :: "string option"
  raw_start_urls :: "string list option"
  raw_selectors :: "selectors_cfg option"
  raw_pagination :: "pagination_cfg option"
  raw_extraction :: "extraction_cfg option"
  raw_error_handling :: "error_handling_cfg option"
  raw_rate_limit :: "rate_cfg option"

text \<open>The configuration after \<open>_load_config\<close> has found the four required keys.\<close>

record config =
  site_name :: string
  category :: string
  start_urls :: "string list"
  selectors :: selectors_cfg
  pagination :: "pagination_cfg option"
  extraction :: "extraction_cfg option"
  error_handling :: "error_handling_cfg option"
  rate_limit_cfg :: "rate_cfg option"

subsection \<open>Documents\<close>

text \<open>
  An element of a parsed page: \<open>get_text\<close> is \<open>elem.get_text(strip=True)\<close>, \<open>attrs\<close> is
  \<open>elem.get\<close>.  A parsed page is its \<open>select\<close> method: the elements a CSS selector
  matches, in document order, or the message of the exception the selector raises.
  Attribute values are strings; the parser's list-valued attributes (\<open>class\<close>, \<open>rel\<close>)
  are left out.
\<close>

record element =
  get_text :: string
  attrs :: "string \<Rightarrow> string option"

type_synonym soup = "string \<Rightarrow> string + element list"

subsection \<open>Collaborators\<close>

record parsed_url =
  scheme :: string
  netloc :: string
  path :: string
  params :: string
  query :: string
  fragment :: string

text \<open>
  The world a run sees: \<open>fetch url\<close> is \<open>client.get(url)\<close> followed by
  \<open>raise_for_status\<close> and the HTML parser (\<open>Inl\<close> carries \<open>str(e)\<close> of a network error or
  a status that is not a success), and the functions of \<open>urllib.parse\<close>.  \<open>urlparse\<close> and
  \<open>urljoin\<close> raise \<open>ValueError\<close> on some URLs (a malformed bracketed host):
  \<open>urlparse_error url\<close> and \<open>urljoin_error base url\<close> are the message of the exception
  when the call raises, and \<open>urlparse url\<close> and \<open>urljoin base url\<close> are the results when
  it does not.  A dictionary is the list of its items in insertion order.
\<close>

record world =
  fetch :: "string \<Rightarrow> string + soup"
  urlparse :: "string \<Rightarrow> parsed_url"
  urlparse_error :: "string \<Rightarrow> string option"
  parse_qs :: "string \<Rightarrow> (string \<times> string list) list"
  urlencode :: "(string \<times> string list) list \<Rightarrow> string"
  urlunparse :: "parsed_url \<Rightarrow> string"
  urljoin :: "string \<Rightarrow> string \<Rightarrow> string"
  urljoin_error :: "string \<Rightarrow> string \<Rightarrow> string option"

text \<open>
  What belongs to one interpreter process: the salted \<open>hash\<close> of a string, and the order
  in which a \<open>set\<close> of strings iterates, given the order in which its elements were first
  inserted.
\<close>

record process =
  py_hash :: "string \<Rightarrow> int"
  set_order :: "string list \<Rightarrow> string list"

subsection \<open>Records of a run\<close>

datatype phase = Listing | Product

record error_record =
  err_url :: string
  err_error :: string
  err_type :: phase

text \<open>
  \<open>float(s)\<close> is kept as the literal \<open>s\<close> it was parsed from; the price of a product is
  that number, or the cleaned text when \<open>parse_price\<close> is off.
\<close>

datatype price = Price_float string | Price_text string

text \<open>
  The product dictionary.  For a key that the scraper sets only under a condition the
  outer \<open>option\<close> says whether the key is there; an inner \<open>option\<close> is a value that may
  be Python's \<open>None\<close>.
\<close>

record product =
  p_id :: string
  p_product_url :: string
  p_category :: string
  p_name :: "string option option"
  p_description :: "string option option"
  p_brand :: "string option option"
  p_sub_category :: "string option option"
  p_price :: "price option option"
  p_currency :: "string option"
  p_attributes :: "(string \<times> string option) list option"
  p_features :: "string list option"
  p_image_url :: "string option"
  p_image_urls_all :: "string list option"

text \<open>
  The state of a \<open>ProductScraper\<close>.  \<open>requests\<close> is the log of the URLs given to
  \<open>client.get\<close>, oldest first.
\<close>

record scraper =
  config :: config
  products :: "product list"
  errors :: "error_record list"
  requests :: "string list"

record results =
  r_site_name :: string
  r_category :: string
  total_products :: nat
  total_errors :: nat
  r_products :: "product list"
  r_errors :: "error_record list"

section \<open>Loading the configuration\<close>

text \<open>
  \<open>_load_config\<close>, on the mapping read from the file: the first required key that is
  missing raises \<open>ValueError\<close>, whose message is the \<open>Inl\<close>.  Nothing else is checked.
\<close>

definition missing_field :: "string \<Rightarrow> string" where
  "missing_field field = ''Missing required config field: '' @ field"

definition load_config :: "raw_config \<Rightarrow> string + config" where
  "load_config raw =
     (case raw_site_name raw of
        None \<Rightarrow> Inl (missing_field ''site_name'')
      | Some sn \<Rightarrow>
     (case raw_category raw of
        None \<Rightarrow> Inl (missing_field ''category'')
      | Some cat \<Rightarrow>
     (case raw_start_urls raw of
        None \<Rightarrow> Inl (missing_field ''start_urls'')
      | Some urls \<Rightarrow>
     (case raw_selectors raw of
        None \<Rightarrow> Inl (missing_field ''selectors'')
      | Some sels \<Rightarrow>
          Inr \<lparr>site_name = sn, category = cat, start_urls = urls, selectors = sels,
               pagination = raw_pagination raw, extraction = raw_extraction raw,
               error_handling = raw_error_handling raw,
               rate_limit_cfg = raw_rate_limit raw\<rparr>))))"

text \<open>
  \<open>_rate_limit\<close>: it waits, and returns nothing.  \<open>time.sleep\<close> raises \<open>ValueError\<close> for a
  negative delay; the result is the message of that exception, or \<open>None\<close> when the call
  returns.
\<close>

definition rate_limit :: "config \<Rightarrow> string option" where
  "rate_limit cfg =
     (let delay = (case rate_limit_cfg cfg of
                     None \<Rightarrow> 1
                   | Some rate_config \<Rightarrow>
                       (case delay_between_pages rate_config of None \<Rightarrow> 1 | Some d \<Rightarrow> d))
      in if delay < 0 then Some ''sleep length must be non-negative'' else None)"

text \<open>
  \<open>ProductScraper.__init__\<close>: the configuration is loaded first; an exception there
  leaves no scraper.  The HTTP client it then creates sends nothing.
\<close>

definition init :: "raw_config \<Rightarrow> string + scraper" where
  "init raw =
     (case load_config raw of
        Inl e \<Rightarrow> Inl e
      | Inr cfg \<Rightarrow> Inr \<lparr>config = cfg, products = [], errors = [], requests = []\<rparr>)"

section \<open>Selectors and fields\<close>

text \<open>
  \<open>_extract_text\<close> with \<open>extract_all=False\<close>: the first match, or \<open>None\<close>; an exception
  of the selector is swallowed.
\<close>

definition extract_text :: "soup \<Rightarrow> string \<Rightarrow> string option" where
  "extract_text soup selector =
     (case attr_match selector of
        Some (css_selector, attr_name) \<Rightarrow>
          (case soup css_selector of
             Inl e \<Rightarrow> None
           | Inr [] \<Rightarrow> None
           | Inr (elem # _) \<Rightarrow>
               Some (py_strip (case attrs elem attr_name of None \<Rightarrow> [] | Some v \<Rightarrow> v)))
      | None \<Rightarrow>
          (case soup selector of
             Inl e \<Rightarrow> None
           | Inr [] \<Rightarrow> None
           | Inr (elem # _) \<Rightarrow> Some (get_text elem)))"

text \<open>\<open>_extract_text\<close> with \<open>extract_all=True\<close>: every match, as a list.\<close>

definition extract_text_all :: "soup \<Rightarrow> string \<Rightarrow> string list" where
  "extract_text_all soup selector =
     (case attr_match selector of
        Some (css_selector, attr_name) \<Rightarrow>
          (case soup css_selector of
             Inl e \<Rightarrow> []
           | Inr elements \<Rightarrow>
               concat (map (\<lambda>elem. case attrs elem attr_name of
                                     None \<Rightarrow> []
                                   | Some v \<Rightarrow> if v \<noteq> [] then [py_strip v] else [])
                        elements))
      | None \<Rightarrow>
          (case soup selector of
             Inl e \<Rightarrow> []
           | Inr elements \<Rightarrow> filter (\<lambda>t. t \<noteq> []) (map get_text elements)))"

definition clean_text :: "string option \<Rightarrow> string option" where
  "clean_text text =
     (case text of
        None \<Rightarrow> None
      | Some t \<Rightarrow>
          if t = [] then None
          else (let t' = py_strip (sub_spaces t) in if t' = [] then None else Some t'))"

text \<open>
  \<open>float\<close> accepts a string of digits and points when it has at most one point and at
  least one digit.
\<close>

definition float_ok :: "string \<Rightarrow> bool" where
  "float_ok s = (list_ex py_isdigit s \<and> length (filter (\<lambda>c. c = CHR ''.'') s) \<le> 1)"

definition parse_price :: "string option \<Rightarrow> price option" where
  "parse_price price_str =
     (case price_str of
        None \<Rightarrow> None
      | Some p \<Rightarrow>
          if p = [] then None
          else (let price_clean = filter (\<lambda>c. py_isdigit c \<or> c = CHR ''.'') p
                in if float_ok price_clean then Some (Price_float price_clean) else None))"

section \<open>Pagination\<close>

text \<open>\<open>d[k] = v\<close> on a dictionary: an existing key keeps its place.\<close>

fun dict_set :: "('k \<times> 'v) list \<Rightarrow> 'k \<Rightarrow> 'v \<Rightarrow> ('k \<times> 'v) list" where
  "dict_set [] k v = [(k, v)]"
| "dict_set ((k', v') # d) k v =
     (if k' = k then (k, v) # d else (k', v') # dict_set d k v)"

definition pagination_max_pages :: "config \<Rightarrow> int" where
  "pagination_max_pages cfg =
     (case pagination cfg of
        None \<Rightarrow> 10
      | Some pg \<Rightarrow> (case max_pages pg of None \<Rightarrow> 10 | Some m \<Rightarrow> m))"

definition pagination_type :: "config \<Rightarrow> string" where
  "pagination_type cfg =
     (case pagination cfg of
        None \<Rightarrow> ''url_param''
      | Some pg \<Rightarrow> (case pg_type pg of None \<Rightarrow> ''url_param'' | Some t \<Rightarrow> t))"

definition pagination_param_name :: "config \<Rightarrow> string" where
  "pagination_param_name cfg =
     (case pagination cfg of
        None \<Rightarrow> ''page''
      | Some pg \<Rightarrow> (case param_name pg of None \<Rightarrow> ''page'' | Some n \<Rightarrow> n))"

text \<open>
  \<open>_get_next_page_url\<close>: \<open>Inr\<close> is what it returns, \<open>Inl\<close> the message of the
  \<open>ValueError\<close> that \<open>urlparse\<close> raises and the function does not catch.
\<close>

definition get_next_page_url ::
  "world \<Rightarrow> config \<Rightarrow> string \<Rightarrow> int \<Rightarrow> string + string option" where
  "get_next_page_url w cfg current_url page_num =
     (if page_num > pagination_max_pages cfg then Inr None
      else if pagination_type cfg = ''url_param'' then
        (case urlparse_error w current_url of
           Some e \<Rightarrow> Inl e
         | None \<Rightarrow>
             (let parsed = urlparse w current_url;
                  query_params = dict_set (parse_qs w (query parsed))
                                   (pagination_param_name cfg) [py_str_int page_num];
                  new_query = urlencode w query_params;
                  new_url = urlunparse w
                    \<lparr>scheme = scheme parsed, netloc = netloc parsed, path = path parsed,
                     params = params parsed, query = new_query, fragment = fragment parsed\<rparr>
              in Inr (Some new_url)))
      else Inr None)"

section \<open>Listing pages\<close>

definition key_error :: "string \<Rightarrow> string" where
  "key_error k = CHR 0x27 # k @ [CHR 0x27]"

text \<open>
  \<open>urljoin(url, x)\<close> for every \<open>x\<close> of a list, in order; the first call that raises ends
  it with that exception.
\<close>

fun join_all :: "world \<Rightarrow> string \<Rightarrow> string list \<Rightarrow> string + string list" where
  "join_all w url [] = Inr []"
| "join_all w url (x # xs) =
     (case urljoin_error w url x of
        Some e \<Rightarrow> Inl e
      | None \<Rightarrow>
          (case join_all w url xs of
             Inl e \<Rightarrow> Inl e
           | Inr ys \<Rightarrow> Inr (urljoin w url x # ys)))"

text \<open>The body of the \<open>try\<close> of \<open>_scrape_product_links\<close>; \<open>Inl\<close> is \<open>str(e)\<close>.\<close>

definition listing_links :: "world \<Rightarrow> config \<Rightarrow> string \<Rightarrow> string + string list" where
  "listing_links w cfg url =
     (case fetch w url of
        Inl e \<Rightarrow> Inl e
      | Inr soup \<Rightarrow>
     (case product_links (selectors cfg) of
        None \<Rightarrow> Inl (key_error ''product_links'')
      | Some selector \<Rightarrow>
     (case soup selector of
        Inl e \<Rightarrow> Inl e
      | Inr elems \<Rightarrow>
          join_all w url
            (concat (map (\<lambda>elem. case attrs elem ''href'' of
                                    None \<Rightarrow> []
                                  | Some href \<Rightarrow> if href \<noteq> [] then [href] else [])
                       elems)))))"

definition scrape_product_links :: "world \<Rightarrow> string \<Rightarrow> scraper \<Rightarrow> string list \<times> scraper" where
  "scrape_product_links w url s =
     (let s1 = s\<lparr>requests := requests s @ [url]\<rparr>
      in case listing_links w (config s1) url of
           Inl e \<Rightarrow>
             ([], s1\<lparr>errors := errors s1 @
                      [\<lparr>err_url = url, err_error = e, err_type = Listing\<rparr>]\<rparr>)
         | Inr links \<Rightarrow> (links, s1))"

section \<open>Product pages\<close>

text \<open>
  \<open>_generate_product_id\<close>: the last non-empty part of the path between slashes, with
  \<open>re.sub(r'[^\w-]', '_', ...)\<close> applied, or \<open>str(hash(url))\<close> when the path has none.
  This is the value it returns; when \<open>urlparse\<close> raises on the URL the call raises, which
  its caller \<open>extract_product\<close> accounts for.
\<close>

definition generate_product_id :: "world \<Rightarrow> process \<Rightarrow> string \<Rightarrow> string" where
  "generate_product_id w pr url =
     (let parsed = urlparse w url;
          path_parts = filter (\<lambda>p. p \<noteq> []) (py_split CHR ''/'' (path parsed))
      in if path_parts \<noteq> []
         then map (\<lambda>c. if re_word c \<or> c = CHR ''-'' then c else CHR ''_'') (last path_parts)
         else py_str_int (py_hash pr url))"

definition opt_clean_text :: "extraction_cfg option \<Rightarrow> bool" where
  "opt_clean_text opts =
     (case opts of
        None \<Rightarrow> True
      | Some e \<Rightarrow> (case clean_text_opt e of None \<Rightarrow> True | Some b \<Rightarrow> b))"

definition opt_parse_price :: "extraction_cfg option \<Rightarrow> bool" where
  "opt_parse_price opts =
     (case opts of
        None \<Rightarrow> True
      | Some e \<Rightarrow> (case parse_price_opt e of None \<Rightarrow> True | Some b \<Rightarrow> b))"

definition opt_default_currency :: "extraction_cfg option \<Rightarrow> string" where
  "opt_default_currency opts =
     (case opts of
        None \<Rightarrow> ''INR''
      | Some e \<Rightarrow> (case default_currency e of None \<Rightarrow> ''INR'' | Some c \<Rightarrow> c))"

definition opt_extract_all_images :: "extraction_cfg option \<Rightarrow> bool" where
  "opt_extract_all_images opts =
     (case opts of
        None \<Rightarrow> False
      | Some e \<Rightarrow> (case extract_all_images e of None \<Rightarrow> False | Some b \<Rightarrow> b))"

text \<open>One of the fields \<open>name\<close>, \<open>description\<close>, \<open>brand\<close>, \<open>sub_category\<close>.\<close>

definition basic_field :: "soup \<Rightarrow> extraction_cfg option \<Rightarrow> string option \<Rightarrow> string option option" where
  "basic_field soup opts sel =
     (case sel of
        None \<Rightarrow> None
      | Some selector \<Rightarrow>
          (let v = extract_text soup selector
           in Some (if opt_clean_text opts then clean_text v else v)))"

definition price_field :: "soup \<Rightarrow> extraction_cfg option \<Rightarrow> string option \<Rightarrow> price option option" where
  "price_field soup opts sel =
     (case sel of
        None \<Rightarrow> None
      | Some selector \<Rightarrow>
          (let price_text = extract_text soup selector
           in Some (if opt_parse_price opts then parse_price price_text
                    else map_option Price_text (clean_text price_text))))"

definition currency_field :: "soup \<Rightarrow> extraction_cfg option \<Rightarrow> string option \<Rightarrow> string option" where
  "currency_field soup opts sel =
     (case sel of
        Some selector \<Rightarrow> extract_text soup selector
      | None \<Rightarrow> Some (opt_default_currency opts))"

definition attributes_field ::
  "soup \<Rightarrow> (string \<times> string) list option \<Rightarrow> (string \<times> string option) list option" where
  "attributes_field soup sel =
     (case sel of
        None \<Rightarrow> None
      | Some items \<Rightarrow>
          Some (fold (\<lambda>(attr_name, attr_selector) attributes.
                        case extract_text soup attr_selector of
                          None \<Rightarrow> attributes
                        | Some v \<Rightarrow>
                            if v \<noteq> [] then dict_set attributes attr_name (clean_text (Some v))
                            else attributes)
                  items []))"

definition features_field :: "soup \<Rightarrow> string option \<Rightarrow> string list option" where
  "features_field soup sel =
     (case sel of
        None \<Rightarrow> None
      | Some selector \<Rightarrow>
          (let features = extract_text_all soup selector
           in Some (if features \<noteq> [] then features else [])))"

definition image_url_field ::
  "world \<Rightarrow> soup \<Rightarrow> string \<Rightarrow> string option \<Rightarrow> string + string option" where
  "image_url_field w soup url sel =
     (case sel of
        None \<Rightarrow> Inr None
      | Some selector \<Rightarrow>
          (case extract_text soup selector of
             None \<Rightarrow> Inr None
           | Some image_url \<Rightarrow>
               if image_url \<noteq> [] then
                 (case urljoin_error w url image_url of
                    Some e \<Rightarrow> Inl e
                  | None \<Rightarrow> Inr (Some (urljoin w url image_url)))
               else Inr None))"

definition image_urls_all_field ::
  "world \<Rightarrow> soup \<Rightarrow> extraction_cfg option \<Rightarrow> string \<Rightarrow> string option
     \<Rightarrow> string + string list option" where
  "image_urls_all_field w soup opts url sel =
     (if opt_extract_all_images opts then
        (case sel of
           None \<Rightarrow> Inr None
         | Some selector \<Rightarrow>
             (let image_urls = extract_text_all soup selector
              in if image_urls \<noteq> [] then map_sum id Some (join_all w url image_urls)
                 else Inr (Some [])))
      else Inr None)"

text \<open>
  The body of the \<open>try\<close> of \<open>_scrape_product_detail\<close> after \<open>self._rate_limit()\<close>; \<open>Inl\<close> is
  \<open>str(e)\<close>.  \<open>_generate_product_id\<close> raises what \<open>urlparse\<close> raises.
\<close>

definition extract_product :: "world \<Rightarrow> process \<Rightarrow> config \<Rightarrow> string \<Rightarrow> string + product" where
  "extract_product w pr cfg url =
     (case fetch w url of
        Inl e \<Rightarrow> Inl e
      | Inr soup \<Rightarrow>
     (case product_detail (selectors cfg) of
        None \<Rightarrow> Inl (key_error ''product_detail'')
      | Some detail_selectors \<Rightarrow>
     (case urlparse_error w url of
        Some e \<Rightarrow> Inl e
      | None \<Rightarrow>
     (case image_url_field w soup url (sel_image_url detail_selectors) of
        Inl e \<Rightarrow> Inl e
      | Inr image_url \<Rightarrow>
     (case image_urls_all_field w soup (extraction cfg) url
             (sel_image_urls_all detail_selectors) of
        Inl e \<Rightarrow> Inl e
      | Inr image_urls_all \<Rightarrow>
          (let extraction_opts = extraction cfg
           in Inr \<lparr>p_id = generate_product_id w pr url,
                   p_product_url = url,
                   p_category = category cfg,
                   p_name = basic_field soup extraction_opts (sel_name detail_selectors),
                   p_description =
                     basic_field soup extraction_opts (sel_description detail_selectors),
                   p_brand = basic_field soup extraction_opts (sel_brand detail_selectors),
                   p_sub_category =
                     basic_field soup extraction_opts (sel_sub_category detail_selectors),
                   p_price = price_field soup extraction_opts (sel_price detail_selectors),
                   p_currency =
                     currency_field soup extraction_opts (sel_currency detail_selectors),
                   p_attributes = attributes_field soup (sel_attributes detail_selectors),
                   p_features = features_field soup (sel_features detail_selectors),
                   p_image_url = image_url,
                   p_image_urls_all = image_urls_all\<rparr>))))))"

text \<open>
  \<open>_scrape_product_detail\<close>.  The wait is the first statement of the \<open>try\<close>: when it
  raises, the error is recorded and nothing is requested.
\<close>

definition scrape_product_detail ::
  "world \<Rightarrow> process \<Rightarrow> string \<Rightarrow> scraper \<Rightarrow> product option \<times> scraper" where
  "scrape_product_detail w pr url s =
     (case rate_limit (config s) of
        Some e \<Rightarrow>
          (None, s\<lparr>errors := errors s @
                     [\<lparr>err_url = url, err_error = e, err_type = Product\<rparr>]\<rparr>)
      | None \<Rightarrow>
          (let s1 = s\<lparr>requests := requests s @ [url]\<rparr>
           in case extract_product w pr (config s1) url of
                Inl e \<Rightarrow>
                  (None, s1\<lparr>errors := errors s1 @
                             [\<lparr>err_url = url, err_error = e, err_type = Product\<rparr>]\<rparr>)
              | Inr product \<Rightarrow> (Some product, s1)))"

section \<open>The run\<close>

text \<open>
  A \<open>set\<close> of strings is the list of its elements in the order of their first insertion;
  \<open>set_update\<close> is \<open>set.update\<close>, \<open>length\<close> is \<open>len\<close>, and \<open>list(...)\<close> is \<open>set_order\<close> of
  the process.
\<close>

fun set_update :: "string list \<Rightarrow> string list \<Rightarrow> string list" where
  "set_update xs [] = xs"
| "set_update xs (y # ys) = set_update (if y \<in> set xs then xs else xs @ [y]) ys"

text \<open>\<open>xs[:n]\<close>\<close>

definition py_slice_to :: "'a list \<Rightarrow> int \<Rightarrow> 'a list" where
  "py_slice_to xs n =
     (if n < 0 then take (nat (int (length xs) + n)) xs else take (nat n) xs)"

text \<open>
  The \<open>while\<close> loop of \<open>scrape\<close> over the listing pages of one start URL.  The empty
  string is false in Python, so it ends the loop as \<open>None\<close> does.  The loop sits in no
  \<open>try\<close>: an exception of \<open>_get_next_page_url\<close> or of \<open>_rate_limit\<close> leaves \<open>scrape\<close>.
  The first component of the result is the message of that exception, or \<open>None\<close> when
  the loop ends; the others are the frontier and the scraper as they are then.
\<close>

text \<open>\<open>if current_url: self._rate_limit()\<close>, for the next URL of the loop.\<close>

definition wait_before_page :: "config \<Rightarrow> string option \<Rightarrow> string option" where
  "wait_before_page cfg next_url =
     (if next_url \<noteq> None \<and> next_url \<noteq> Some [] then rate_limit cfg else None)"

function listing_loop ::
  "world \<Rightarrow> int \<Rightarrow> string \<Rightarrow> string option \<Rightarrow> int \<Rightarrow> string list \<times> scraper
     \<Rightarrow> string option \<times> string list \<times> scraper" where
  "listing_loop w limit start_url current_url page_num (all_product_urls, s) =
     (case current_url of
        None \<Rightarrow> (None, all_product_urls, s)
      | Some cur \<Rightarrow>
          if cur \<noteq> [] \<and> int (length all_product_urls) < limit then
            (case scrape_product_links w cur s of
               (links, s') \<Rightarrow>
                 (case get_next_page_url w (config s') start_url (page_num + 1) of
                    Inl e \<Rightarrow> (Some e, set_update all_product_urls links, s')
                  | Inr next_url \<Rightarrow>
                      (case wait_before_page (config s') next_url of
                         Some e \<Rightarrow> (Some e, set_update all_product_urls links, s')
                       | None \<Rightarrow>
                           listing_loop w limit start_url next_url (page_num + 1)
                             (set_update all_product_urls links, s'))))
          else (None, all_product_urls, s))"
  by pat_completeness auto

lemma config_scrape_product_links:
  "scrape_product_links w url s = (links, s') \<Longrightarrow> config s' = config s"
  by (auto simp: scrape_product_links_def Let_def split: sum.splits)

lemma get_next_page_url_Some_le:
  "get_next_page_url w cfg url n = Inr (Some u) \<Longrightarrow> n \<le> pagination_max_pages cfg"
  by (auto simp: get_next_page_url_def Let_def split: if_splits option.splits)

termination listing_loop
  apply (relation "measure (\<lambda>(w, limit, start_url, current_url, page_num, urls, s).
          case current_url of
            None \<Rightarrow> 0
          | Some _ \<Rightarrow> Suc (nat (pagination_max_pages (config s) + 1 - page_num)))")
   apply simp
  apply (auto dest!: config_scrape_product_links [OF sym] split: option.splits
              dest: get_next_page_url_Some_le)
  done

declare listing_loop.simps [simp del]

text \<open>
  The \<open>for\<close> loop of \<open>scrape\<close> over the start URLs: an exception in the loop of one start
  URL ends it.
\<close>

fun discover_from ::
  "world \<Rightarrow> int \<Rightarrow> string list \<Rightarrow> string list \<times> scraper
     \<Rightarrow> string option \<times> string list \<times> scraper" where
  "discover_from w limit [] (all_product_urls, s) = (None, all_product_urls, s)"
| "discover_from w limit (start_url # rest) (all_product_urls, s) =
     (case listing_loop w limit start_url (Some start_url) 1 (all_product_urls, s) of
        (Some e, urls', s') \<Rightarrow> (Some e, urls', s')
      | (None, urls', s') \<Rightarrow> discover_from w limit rest (urls', s'))"

definition discover :: "world \<Rightarrow> int \<Rightarrow> scraper \<Rightarrow> string option \<times> string list \<times> scraper" where
  "discover w limit s = discover_from w limit (start_urls (config s)) ([], s)"

definition opt_skip_on_error :: "config \<Rightarrow> bool" where
  "opt_skip_on_error cfg =
     (case error_handling cfg of
        None \<Rightarrow> True
      | Some eh \<Rightarrow> (case skip_on_error eh of None \<Rightarrow> True | Some b \<Rightarrow> b))"

definition opt_log_errors :: "config \<Rightarrow> bool" where
  "opt_log_errors cfg =
     (case error_handling cfg of
        None \<Rightarrow> True
      | Some eh \<Rightarrow> (case log_errors eh of None \<Rightarrow> True | Some b \<Rightarrow> b))"

text \<open>The \<open>for\<close> loop of \<open>scrape\<close> over the product pages, with its \<open>break\<close>.\<close>

fun detail_loop :: "world \<Rightarrow> process \<Rightarrow> string list \<Rightarrow> scraper \<Rightarrow> scraper" where
  "detail_loop w pr [] s = s"
| "detail_loop w pr (url # urls) s =
     (case scrape_product_detail w pr url s of
        (Some product_data, s') \<Rightarrow>
          detail_loop w pr urls (s'\<lparr>products := products s' @ [product_data]\<rparr>)
      | (None, s') \<Rightarrow>
          if \<not> opt_skip_on_error (config s') then s' else detail_loop w pr urls s')"

text \<open>
  A call of \<open>scrape\<close>: the message of the exception that leaves it, or \<open>None\<close> when it
  returns, and the scraper as the call leaves it.  What it returns is \<open>products\<close> of
  that scraper.
\<close>

definition scrape_run :: "world \<Rightarrow> process \<Rightarrow> int \<Rightarrow> scraper \<Rightarrow> string option \<times> scraper" where
  "scrape_run w pr limit s =
     (case discover w limit s of
        (Some e, all_product_urls, s1) \<Rightarrow> (Some e, s1)
      | (None, all_product_urls, s1) \<Rightarrow>
          (let product_urls_to_scrape = py_slice_to (set_order pr all_product_urls) limit
           in (None, detail_loop w pr product_urls_to_scrape s1)))"

text \<open>\<open>scrape\<close>: the scraper it leaves.\<close>

definition scrape :: "world \<Rightarrow> process \<Rightarrow> int \<Rightarrow> scraper \<Rightarrow> scraper" where
  "scrape w pr limit s = snd (scrape_run w pr limit s)"

definition get_results :: "scraper \<Rightarrow> results" where
  "get_results s =
     \<lparr>r_site_name = site_name (config s),
      r_category = category (config s),
      total_products = length (products s),
      total_errors = length (errors s),
      r_products = products s,
      r_errors = (if opt_log_errors (config s) then errors s else [])\<rparr>"

section \<open>A model of the library, and a mocked site\<close>

text \<open>
  The theorems below hold for every world.  To run the scraper on concrete pages the
  functions of \<open>urllib.parse\<close> are written out here as far as the examples use them:
  \<open>urlsplit\<close> and \<open>urlparse\<close>, which raise when only one of the two brackets stands in
  the host (the check of the address between two brackets is left out), \<open>urlunparse\<close>,
  \<open>parse_qs\<close> on query strings that hold no percent escapes, \<open>urlencode\<close> with
  \<open>doseq=True\<close>, and \<open>urljoin\<close> on references that are absolute URLs already.
\<close>

definition ascii_alpha :: "char \<Rightarrow> bool" where
  "ascii_alpha c =
     (let n = (of_char c :: nat) in (65 \<le> n \<and> n \<le> 90) \<or> (97 \<le> n \<and> n \<le> 122))"

definition scheme_char :: "char \<Rightarrow> bool" where
  "scheme_char c =
     (ascii_alpha c \<or> py_isdigit c \<or> c = CHR ''+'' \<or> c = CHR ''-'' \<or> c = CHR ''.'')"

definition ascii_lower :: "char \<Rightarrow> char" where
  "ascii_lower c =
     (let n = (of_char c :: nat) in if 65 \<le> n \<and> n \<le> 90 then char_of (n + 32) else c)"

text \<open>\<open>s.partition(c)\<close>, without the separator: the parts before and after the first \<open>c\<close>.\<close>

definition partition_at :: "char \<Rightarrow> string \<Rightarrow> string \<times> string" where
  "partition_at c s = (takeWhile (\<lambda>x. x \<noteq> c) s, drop 1 (dropWhile (\<lambda>x. x \<noteq> c) s))"

definition uses_params :: "string list" where
  "uses_params =
     [[], ''ftp'', ''hdl'', ''prospero'', ''http'', ''imap'', ''https'', ''shttp'',
      ''rtsp'', ''rtsps'', ''rtspu'', ''sip'', ''sips'', ''mms'', ''sftp'', ''tel'']"

definition uses_netloc :: "string list" where
  "uses_netloc =
     [[], ''ftp'', ''http'', ''gopher'', ''nntp'', ''telnet'', ''imap'', ''wais'',
      ''file'', ''mms'', ''https'', ''shttp'', ''snews'', ''prospero'', ''rtsp'', ''rtsps'',
      ''rtspu'', ''rsync'', ''svn'', ''svn+ssh'', ''sftp'', ''nfs'', ''git'', ''git+ssh'',
      ''ws'', ''wss'']"

definition split_scheme :: "string \<Rightarrow> string \<times> string" where
  "split_scheme url =
     (let pre = takeWhile (\<lambda>c. c \<noteq> CHR '':'') url
      in if length pre < length url \<and> pre \<noteq> [] \<and> ascii_alpha (hd pre)
            \<and> list_all scheme_char pre
         then (map ascii_lower pre, drop (Suc (length pre)) url)
         else ([], url))"

definition split_netloc :: "string \<Rightarrow> string \<times> string" where
  "split_netloc url =
     (if take 2 url = ''//''
      then (let nl = takeWhile (\<lambda>c. c \<noteq> CHR ''/'' \<and> c \<noteq> CHR ''?'' \<and> c \<noteq> CHR ''#'')
                       (drop 2 url)
            in (nl, drop (2 + length nl) url))
      else ([], url))"

definition split_params :: "string \<Rightarrow> string \<times> string" where
  "split_params url =
     (let last_part = rev (takeWhile (\<lambda>c. c \<noteq> CHR ''/'') (rev url));
          dir = take (length url - length last_part) url
      in if CHR '';'' \<in> set last_part
         then (dir @ takeWhile (\<lambda>c. c \<noteq> CHR '';'') last_part,
               drop 1 (dropWhile (\<lambda>c. c \<noteq> CHR '';'') last_part))
         else (url, []))"

definition urlparse_model :: "string \<Rightarrow> parsed_url" where
  "urlparse_model url0 =
     (let url1 = filter (\<lambda>c. c \<noteq> CHR 0x09 \<and> c \<noteq> CHR 0x0D \<and> c \<noteq> CHR 0x0A)
                   (dropWhile (\<lambda>c. (of_char c :: nat) \<le> 32) url0);
          (sch, url2) = split_scheme url1;
          (nl, url3) = split_netloc url2;
          (url4, frag) = partition_at CHR ''#'' url3;
          (url5, qry) = partition_at CHR ''?'' url4;
          (pth, prm) = (if sch \<in> set uses_params \<and> CHR '';'' \<in> set url5
                        then split_params url5 else (url5, []))
      in \<lparr>scheme = sch, netloc = nl, path = pth, params = prm, query = qry,
          fragment = frag\<rparr>)"

definition urlparse_error_model :: "string \<Rightarrow> string option" where
  "urlparse_error_model url0 =
     (let url1 = filter (\<lambda>c. c \<noteq> CHR 0x09 \<and> c \<noteq> CHR 0x0D \<and> c \<noteq> CHR 0x0A)
                   (dropWhile (\<lambda>c. (of_char c :: nat) \<le> 32) url0);
          (sch, url2) = split_scheme url1;
          (nl, url3) = split_netloc url2
      in if (CHR ''['' \<in> set nl \<and> CHR '']'' \<notin> set nl)
            \<or> (CHR '']'' \<in> set nl \<and> CHR ''['' \<notin> set nl)
         then Some ''Invalid IPv6 URL'' else None)"

definition urlunparse_model :: "parsed_url \<Rightarrow> string" where
  "urlunparse_model p =
     (let url = (if params p \<noteq> [] then path p @ '';'' @ params p else path p);
          url = (if netloc p \<noteq> [] \<or> (scheme p \<noteq> [] \<and> scheme p \<in> set uses_netloc)
                    \<or> take 2 url = ''//''
                 then ''//'' @ netloc p
                        @ (if url \<noteq> [] \<and> take 1 url \<noteq> ''/'' then ''/'' @ url else url)
                 else url);
          url = (if scheme p \<noteq> [] then scheme p @ '':'' @ url else url);
          url = (if query p \<noteq> [] then url @ ''?'' @ query p else url)
      in if fragment p \<noteq> [] then url @ ''#'' @ fragment p else url)"

definition plus_to_space :: "string \<Rightarrow> string" where
  "plus_to_space s = map (\<lambda>c. if c = CHR ''+'' then CHR '' '' else c) s"

definition parse_qsl_model :: "string \<Rightarrow> (string \<times> string) list" where
  "parse_qsl_model qs =
     (if qs = [] then []
      else concat (map (\<lambda>name_value.
                          if name_value = [] then []
                          else (case partition_at CHR ''='' name_value of
                                  (name, v) \<Rightarrow>
                                    if v \<noteq> [] then [(plus_to_space name, plus_to_space v)]
                                    else []))
                     (py_split CHR ''&'' qs)))"

fun dict_append ::
  "(string \<times> string list) list \<Rightarrow> string \<Rightarrow> string \<Rightarrow> (string \<times> string list) list" where
  "dict_append [] k v = [(k, [v])]"
| "dict_append ((k', vs) # d) k v =
     (if k' = k then (k', vs @ [v]) # d else (k', vs) # dict_append d k v)"

definition parse_qs_model :: "string \<Rightarrow> (string \<times> string list) list" where
  "parse_qs_model qs = fold (\<lambda>(name, v) d. dict_append d name v) (parse_qsl_model qs) []"

definition hex_digit :: "nat \<Rightarrow> char" where
  "hex_digit n = (if n < 10 then char_of (48 + n) else char_of (55 + n))"

definition percent :: "nat \<Rightarrow> string" where
  "percent n = [CHR ''%'', hex_digit (n div 16), hex_digit (n mod 16)]"

definition quote_plus_char :: "char \<Rightarrow> string" where
  "quote_plus_char c =
     (let n = (of_char c :: nat)
      in if ascii_alpha c \<or> py_isdigit c \<or> c \<in> set ''_.-~'' then [c]
         else if c = CHR '' '' then ''+''
         else if n < 128 then percent n
         else percent (192 + n div 64) @ percent (128 + n mod 64))"

definition quote_plus :: "string \<Rightarrow> string" where
  "quote_plus s = concat (map quote_plus_char s)"

fun join_amp :: "string list \<Rightarrow> string" where
  "join_amp [] = []"
| "join_amp [x] = x"
| "join_amp (x # y # ys) = x @ ''&'' @ join_amp (y # ys)"

definition urlencode_model :: "(string \<times> string list) list \<Rightarrow> string" where
  "urlencode_model d =
     join_amp (concat (map (\<lambda>(k, vs). map (\<lambda>v. quote_plus k @ ''='' @ quote_plus v) vs) d))"

definition urljoin_absolute :: "string \<Rightarrow> string \<Rightarrow> string" where
  "urljoin_absolute base url = (if url = [] then base else url)"

text \<open>\<open>urljoin\<close> parses the base, then the reference, when neither is empty.\<close>

definition urljoin_error_model :: "string \<Rightarrow> string \<Rightarrow> string option" where
  "urljoin_error_model base url =
     (if base = [] \<or> url = [] then None
      else (case urlparse_error_model base of
              Some e \<Rightarrow> Some e
            | None \<Rightarrow> urlparse_error_model url))"

subsection \<open>A mocked site\<close>

definition link :: "string \<Rightarrow> element" where
  "link href = \<lparr>get_text = [], attrs = (\<lambda>k. if k = ''href'' then Some href else None)\<rparr>"

definition text_node :: "string \<Rightarrow> element" where
  "text_node t = \<lparr>get_text = t, attrs = (\<lambda>k. None)\<rparr>"

text \<open>A page given by the elements each selector matches; any other selector matches none.\<close>

definition page :: "(string \<times> element list) list \<Rightarrow> soup" where
  "page tbl = (\<lambda>sel. case map_of tbl sel of None \<Rightarrow> Inr [] | Some es \<Rightarrow> Inr es)"

text \<open>A site given by the answer to each URL; any other URL is not found.\<close>

definition site :: "(string \<times> (string + soup)) list \<Rightarrow> world" where
  "site pages =
     \<lparr>fetch = (\<lambda>u. case map_of pages u of None \<Rightarrow> Inl ''404 Not Found'' | Some r \<Rightarrow> r),
      urlparse = urlparse_model,
      urlparse_error = urlparse_error_model,
      parse_qs = parse_qs_model,
      urlencode = urlencode_model,
      urlunparse = urlunparse_model,
      urljoin = urljoin_absolute,
      urljoin_error = urljoin_error_model\<rparr>"

definition shop_detail :: detail_selectors where
  "shop_detail =
     \<lparr>sel_name = Some ''h1'', sel_description = None, sel_brand = None,
      sel_sub_category = None, sel_price = Some ''.price'', sel_currency = None,
      sel_attributes = None, sel_features = Some ''li'', sel_image_url = None,
      sel_image_urls_all = None\<rparr>"

definition shop_raw :: raw_config where
  "shop_raw =
     \<lparr>raw_site_name = Some ''shop'', raw_category = Some ''watches'',
      raw_start_urls = Some [''http://s/l''],
      raw_selectors =
        Some \<lparr>product_links = Some ''a.product'', product_detail = Some shop_detail\<rparr>,
      raw_pagination = Some \<lparr>pg_type = None, param_name = None, max_pages = Some 1\<rparr>,
      raw_extraction = None, raw_error_handling = None, raw_rate_limit = None\<rparr>"

definition shop_config :: config where
  "shop_config =
     \<lparr>site_name = ''shop'', category = ''watches'', start_urls = [''http://s/l''],
      selectors = \<lparr>product_links = Some ''a.product'', product_detail = Some shop_detail\<rparr>,
      pagination = Some \<lparr>pg_type = None, param_name = None, max_pages = Some 1\<rparr>,
      extraction = None, error_handling = None, rate_limit_cfg = None\<rparr>"

definition new_scraper :: "config \<Rightarrow> scraper" where
  "new_scraper cfg = \<lparr>config = cfg, products = [], errors = [], requests = []\<rparr>"

definition listing_page :: soup where
  "listing_page = page [(''a.product'', [link ''http://s/p/a'', link ''http://s/p/b''])]"

definition product_page :: "string \<Rightarrow> string \<Rightarrow> soup" where
  "product_page title price_text =
     page [(''h1'', [text_node title]), (''.price'', [text_node price_text]),
           (''li'', [text_node ''steel'', text_node [], text_node ''quartz''])]"

definition shop :: world where
  "shop =
     site [(''http://s/l'', Inr listing_page),
           (''http://s/p/a'', Inr (product_page ''Watch A'' ''INR 8,999.00'')),
           (''http://s/p/b'', Inr (product_page ''Watch B'' ''free''))]"

text \<open>The same shop when the page of the first product answers with an error.\<close>

definition shop_a_down :: world where
  "shop_a_down =
     site [(''http://s/l'', Inr listing_page),
           (''http://s/p/a'', Inl ''500 Internal Server Error''),
           (''http://s/p/b'', Inr (product_page ''Watch B'' ''free''))]"

text \<open>
  Two processes: in one a set iterates in the order of insertion, in the other in the
  reverse order.
\<close>

definition proc_forward :: process where
  "proc_forward = \<lparr>py_hash = (\<lambda>u. int (length u)), set_order = (\<lambda>xs. xs)\<rparr>"

definition proc_backward :: process where
  "proc_backward = \<lparr>py_hash = (\<lambda>u. - int (length u)), set_order = rev\<rparr>"

definition one_error :: "error_record list" where
  "one_error = [\<lparr>err_url = ''http://s/p/a'', err_error = ''500'', err_type = Product\<rparr>]"

text \<open>The shop's configuration with \<open>log_errors: false\<close>.\<close>

definition quiet_config :: config where
  "quiet_config =
     shop_config\<lparr>error_handling := Some \<lparr>skip_on_error = None, log_errors = Some False\<rparr>\<rparr>"

text \<open>
  The shop's configuration file with an empty \<open>start_urls\<close>, and without some of the
  required keys.
\<close>

definition no_start_urls :: raw_config where
  "no_start_urls = shop_raw\<lparr>raw_start_urls := Some []\<rparr>"

definition no_site_name :: raw_config where
  "no_site_name = shop_raw\<lparr>raw_site_name := None, raw_start_urls := None\<rparr>"

definition no_category :: raw_config where
  "no_category = shop_raw\<lparr>raw_category := None, raw_selectors := None\<rparr>"

definition no_start_urls_key :: raw_config where
  "no_start_urls_key = shop_raw\<lparr>raw_start_urls := None, raw_selectors := None\<rparr>"

definition no_selectors :: raw_config where
  "no_selectors = shop_raw\<lparr>raw_selectors := None\<rparr>"

text \<open>
  A configuration of the shop with a selector for the currency, which no product page
  matches, a default currency, and no selector for the features.
\<close>

definition bare_config :: config where
  "bare_config =
     shop_config
       \<lparr>selectors :=
          \<lparr>product_links = Some ''a.product'',
           product_detail =
             Some (shop_detail\<lparr>sel_currency := Some ''.currency'', sel_features := None\<rparr>)\<rparr>,
        extraction :=
          Some \<lparr>clean_text_opt = None, parse_price_opt = None,
                default_currency = Some ''USD'', extract_all_images = None\<rparr>\<rparr>"

text \<open>A configuration of the shop with three listing pages.\<close>

definition paged_config :: config where
  "paged_config =
     shop_config\<lparr>pagination := Some \<lparr>pg_type = None, param_name = None, max_pages = Some 3\<rparr>\<rparr>"

text \<open>The character class \<open>[A-Za-z0-9_-]\<close>.\<close>

definition ascii_id_char :: "char \<Rightarrow> bool" where
  "ascii_id_char c = (ascii_alpha c \<or> py_isdigit c \<or> c = CHR ''_'' \<or> c = CHR ''-'')"










section \<open>Observations of a run\<close>


section \<open>The shape of parsed URLs\<close>

text \<open>
  Notions for reasoning about the model of \<open>urllib.parse\<close>: a string without the
  characters \<open>urlsplit\<close> removes, a scheme as \<open>urlsplit\<close> returns it (empty, or
  lower-case scheme characters after a letter), and the split of path and parameters
  that \<open>urlparse\<close> makes.
\<close>

definition no_unsafe :: "string \<Rightarrow> bool" where
  "no_unsafe s = (\<forall>c \<in> set s. c \<noteq> CHR 0x09 \<and> c \<noteq> CHR 0x0D \<and> c \<noteq> CHR 0x0A)"



section \<open>Splitting a path\<close>

lemma py_split_not_Nil: "py_split sep s \<noteq> []"
  by (induction s) (auto split: list.splits)

lemma py_split_no_sep: "sep \<notin> set s \<Longrightarrow> py_split sep s = [s]"
  by (induction s) auto

lemma py_split_append_sep: "py_split sep (xs @ sep # ys) = py_split sep xs @ py_split sep ys"
  by (induction xs) (auto split: list.splits simp: py_split_not_Nil)

lemma py_split_replicate: "py_split sep (replicate n sep) = replicate (Suc n) []"
  by (induction n) auto

lemma filter_replicate_Nil: "filter (\<lambda>p. p \<noteq> []) (replicate n []) = []"
  by (induction n) auto

lemma path_parts_last_segment:
  assumes "seg \<noteq> []" "sep \<notin> set seg"
  shows "filter (\<lambda>p. p \<noteq> []) (py_split sep (seg @ replicate n sep)) = [seg]"
proof (cases n)
  case 0
  then show ?thesis using assms by (simp add: py_split_no_sep)
next
  case (Suc m)
  then have "seg @ replicate n sep = seg @ sep # replicate m sep" by simp
  then show ?thesis
    using assms
    by (simp add: py_split_append_sep py_split_no_sep py_split_replicate
          filter_replicate_Nil del: replicate_Suc replicate.simps)
qed

lemma path_parts_prefix:
  assumes "seg \<noteq> []" "sep \<notin> set seg" "pre = [] \<or> last pre = sep"
  shows "\<exists>ps. filter (\<lambda>p. p \<noteq> []) (py_split sep (pre @ seg @ replicate n sep)) = ps @ [seg]"
proof (cases "pre = []")
  case True
  then show ?thesis using path_parts_last_segment [OF assms(1,2)] by simp
next
  case False
  with assms(3) obtain pre' where "pre = pre' @ [sep]"
    by (metis append_butlast_last_id)
  then have "pre @ seg @ replicate n sep = pre' @ sep # (seg @ replicate n sep)" by simp
  then show ?thesis
    using path_parts_last_segment [OF assms(1,2)] by (simp add: py_split_append_sep)
qed

lemma path_parts_only_slashes:
  assumes "set p \<subseteq> {sep}"
  shows "filter (\<lambda>p. p \<noteq> []) (py_split sep p) = []"
proof -
  from assms have "p = replicate (length p) sep"
    by (induction p) auto
  then have "py_split sep p = replicate (Suc (length p)) []"
    using py_split_replicate [of sep "length p"] by simp
  then show ?thesis
    using filter_replicate_Nil [of "Suc (length p)"] by simp
qed

lemma char_underscore: "(c = CHR ''_'') = ((of_char c :: nat) = 95)"
  using of_char_eq_iff [of c "CHR ''_''", where ?'a = nat] by simp

lemma char_dash: "(c = CHR ''-'') = ((of_char c :: nat) = 45)"
  using of_char_eq_iff [of c "CHR ''-''", where ?'a = nat] by simp

lemma ascii_word_char:
  "(of_char c :: nat) < 128 \<Longrightarrow> (re_word c \<or> c = CHR ''-'') = ascii_id_char c"
  by (auto simp: re_word_def ascii_id_char_def py_isalnum_def ascii_alpha_def py_isdigit_def
        Let_def char_underscore char_dash)

section \<open>Parsing a URL that was put together\<close>






















lemma no_unsafe_simps:
  "no_unsafe []"
  "no_unsafe (c # s) = (c \<noteq> CHR 0x09 \<and> c \<noteq> CHR 0x0D \<and> c \<noteq> CHR 0x0A \<and> no_unsafe s)"
  "no_unsafe (a @ b) = (no_unsafe a \<and> no_unsafe b)"
  by (auto simp: no_unsafe_def)


lemma built_safe:
  assumes "no_unsafe sch" "no_unsafe nl" "no_unsafe url5" "no_unsafe q" "no_unsafe frag"
  shows "no_unsafe ((if sch = [] then [] else sch @ '':'') @ ''//'' @ nl @ url5
              @ (if q = [] then [] else ''?'' @ q) @ (if frag = [] then [] else ''#'' @ frag))"
  using assms by (simp add: no_unsafe_simps)















section \<open>The result document\<close>

text \<open>
  C9, as stated: every result document has \<open>total_errors\<close> equal to the length of its
  \<open>errors\<close> array.  It fails for a scraper that recorded one error under
  \<open>log_errors: false\<close>: the count is 1 and the array is empty.
\<close>

theorem get_results_total_errors_counterexample:
  "total_errors (get_results (new_scraper quiet_config\<lparr>errors := one_error\<rparr>)) = 1
   \<and> r_errors (get_results (new_scraper quiet_config\<lparr>errors := one_error\<rparr>)) = []"
  by (simp add: get_results_def new_scraper_def quiet_config_def shop_config_def
        one_error_def opt_log_errors_def)

text \<open>
  C9, amended: \<open>total_products\<close> is the length of the \<open>products\<close> array and
  \<open>total_errors\<close> is the number of errors recorded; the \<open>errors\<close> array holds the
  recorded errors when \<open>log_errors\<close> is true or absent, so that \<open>total_errors\<close> is its
  length then, and it is empty when \<open>log_errors\<close> is false.
\<close>

theorem get_results_counts:
  "total_products (get_results s) = length (r_products (get_results s))
   \<and> total_errors (get_results s) = length (errors s)
   \<and> (opt_log_errors (config s) \<longrightarrow>
        r_errors (get_results s) = errors s
        \<and> total_errors (get_results s) = length (r_errors (get_results s)))
   \<and> (\<not> opt_log_errors (config s) \<longrightarrow> r_errors (get_results s) = [])"
  by (simp add: get_results_def)

theorem get_results_counts_witness:
  "opt_log_errors (config (new_scraper shop_config\<lparr>errors := one_error\<rparr>))
   \<and> total_errors (get_results (new_scraper shop_config\<lparr>errors := one_error\<rparr>))
       = length (r_errors (get_results (new_scraper shop_config\<lparr>errors := one_error\<rparr>)))
   \<and> r_errors (get_results (new_scraper shop_config\<lparr>errors := one_error\<rparr>)) = one_error
   \<and> \<not> opt_log_errors (config (new_scraper quiet_config\<lparr>errors := one_error\<rparr>))
   \<and> r_errors (get_results (new_scraper quiet_config\<lparr>errors := one_error\<rparr>)) = []
   \<and> total_errors (get_results (new_scraper quiet_config\<lparr>errors := one_error\<rparr>)) = 1"
proof -
  have loud: "opt_log_errors (config (new_scraper shop_config\<lparr>errors := one_error\<rparr>))"
    by (simp add: new_scraper_def shop_config_def opt_log_errors_def)
  have quiet: "\<not> opt_log_errors (config (new_scraper quiet_config\<lparr>errors := one_error\<rparr>))"
    by (simp add: new_scraper_def quiet_config_def shop_config_def opt_log_errors_def)
  have n: "length (errors (new_scraper quiet_config\<lparr>errors := one_error\<rparr>)) = 1"
    by (simp add: one_error_def)
  show ?thesis
    using loud quiet n
      get_results_counts [of "new_scraper shop_config\<lparr>errors := one_error\<rparr>"]
      get_results_counts [of "new_scraper quiet_config\<lparr>errors := one_error\<rparr>"]
    by simp
qed

section \<open>Construction\<close>

text \<open>
  C7, as stated: construction fails when \<open>start_urls\<close> is empty.  It does not: a
  configuration whose \<open>start_urls\<close> is the empty list yields a scraper.
\<close>

theorem init_empty_start_urls_counterexample:
  "init no_start_urls = Inr (new_scraper (shop_config\<lparr>start_urls := []\<rparr>))"
  by (simp add: init_def load_config_def no_start_urls_def shop_raw_def new_scraper_def
        shop_config_def)

text \<open>
  C7, amended: when one of \<open>site_name\<close>, \<open>category\<close>, \<open>start_urls\<close>, \<open>selectors\<close> is missing
  from the configuration, construction fails with the \<open>ValueError\<close> that names the first
  of them, in this order, that is missing; there is no scraper then and nothing was
  requested.  When the four keys are there, whatever \<open>start_urls\<close> holds, the scraper is
  built on that configuration, with empty accumulators, and has sent no request.
\<close>

theorem init_fails_iff_key_missing:
  "(raw_site_name raw = None \<longrightarrow>
      init raw = Inl ''Missing required config field: site_name'')
   \<and> (raw_site_name raw \<noteq> None \<and> raw_category raw = None \<longrightarrow>
      init raw = Inl ''Missing required config field: category'')
   \<and> (raw_site_name raw \<noteq> None \<and> raw_category raw \<noteq> None \<and> raw_start_urls raw = None \<longrightarrow>
      init raw = Inl ''Missing required config field: start_urls'')
   \<and> (raw_site_name raw \<noteq> None \<and> raw_category raw \<noteq> None \<and> raw_start_urls raw \<noteq> None
      \<and> raw_selectors raw = None \<longrightarrow>
      init raw = Inl ''Missing required config field: selectors'')
   \<and> (\<forall>sn cat urls sels.
        raw_site_name raw = Some sn \<and> raw_category raw = Some cat
        \<and> raw_start_urls raw = Some urls \<and> raw_selectors raw = Some sels \<longrightarrow>
        init raw
        = Inr \<lparr>config =
                 \<lparr>site_name = sn, category = cat, start_urls = urls, selectors = sels,
                  pagination = raw_pagination raw, extraction = raw_extraction raw,
                  error_handling = raw_error_handling raw,
                  rate_limit_cfg = raw_rate_limit raw\<rparr>,
               products = [], errors = [], requests = []\<rparr>)"
  by (auto simp: init_def load_config_def missing_field_def split: option.splits)

theorem init_fails_iff_key_missing_witness:
  "raw_site_name no_site_name = None \<and> raw_start_urls no_site_name = None
   \<and> init no_site_name = Inl ''Missing required config field: site_name''
   \<and> raw_site_name no_category \<noteq> None \<and> raw_category no_category = None
   \<and> raw_selectors no_category = None
   \<and> init no_category = Inl ''Missing required config field: category''
   \<and> raw_site_name no_start_urls_key \<noteq> None \<and> raw_category no_start_urls_key \<noteq> None
   \<and> raw_start_urls no_start_urls_key = None \<and> raw_selectors no_start_urls_key = None
   \<and> init no_start_urls_key = Inl ''Missing required config field: start_urls''
   \<and> raw_site_name no_selectors \<noteq> None \<and> raw_category no_selectors \<noteq> None
   \<and> raw_start_urls no_selectors \<noteq> None \<and> raw_selectors no_selectors = None
   \<and> init no_selectors = Inl ''Missing required config field: selectors''
   \<and> raw_site_name no_start_urls = Some ''shop'' \<and> raw_category no_start_urls = Some ''watches''
   \<and> raw_start_urls no_start_urls = Some []
   \<and> raw_selectors no_start_urls
     = Some \<lparr>product_links = Some ''a.product'', product_detail = Some shop_detail\<rparr>
   \<and> init no_start_urls = Inr (new_scraper (shop_config\<lparr>start_urls := []\<rparr>))"
proof -
  have a: "raw_site_name no_site_name = None" "raw_start_urls no_site_name = None"
    by (simp_all add: no_site_name_def)
  have b: "raw_site_name no_category \<noteq> None \<and> raw_category no_category = None"
    "raw_selectors no_category = None"
    by (simp_all add: no_category_def shop_raw_def)
  have c: "raw_site_name no_start_urls_key \<noteq> None \<and> raw_category no_start_urls_key \<noteq> None
      \<and> raw_start_urls no_start_urls_key = None"
    "raw_selectors no_start_urls_key = None"
    by (simp_all add: no_start_urls_key_def shop_raw_def)
  have d: "raw_site_name no_selectors \<noteq> None \<and> raw_category no_selectors \<noteq> None
      \<and> raw_start_urls no_selectors \<noteq> None \<and> raw_selectors no_selectors = None"
    by (simp add: no_selectors_def shop_raw_def)
  have e: "raw_site_name no_start_urls = Some ''shop'' \<and> raw_category no_start_urls = Some ''watches''
      \<and> raw_start_urls no_start_urls = Some []
      \<and> raw_selectors no_start_urls
        = Some \<lparr>product_links = Some ''a.product'', product_detail = Some shop_detail\<rparr>"
    by (simp add: no_start_urls_def shop_raw_def)
  note ra = mp [OF init_fails_iff_key_missing [of no_site_name, THEN conjunct1] a(1)]
  note rb = mp [OF init_fails_iff_key_missing
      [of no_category, THEN conjunct2, THEN conjunct1] b(1)]
  note rc = mp [OF init_fails_iff_key_missing
      [of no_start_urls_key, THEN conjunct2, THEN conjunct2, THEN conjunct1] c(1)]
  note rd = mp [OF init_fails_iff_key_missing
      [of no_selectors, THEN conjunct2, THEN conjunct2, THEN conjunct2, THEN conjunct1] d]
  from init_fails_iff_key_missing
      [of no_start_urls, THEN conjunct2, THEN conjunct2, THEN conjunct2, THEN conjunct2,
       rule_format, OF e]
  have re: "init no_start_urls = Inr (new_scraper (shop_config\<lparr>start_urls := []\<rparr>))"
    by (simp add: no_start_urls_def shop_raw_def new_scraper_def shop_config_def)
  from a ra b rb c rc d rd re e show ?thesis
    by simp
qed

section \<open>Product identifiers\<close>

text \<open>
  C6, as stated: the identifier is the last non-empty path segment with every character
  outside \<open>[A-Za-z0-9_-]\<close> replaced, and the same URL always yields the same identifier.
  Neither holds: \<open>\w\<close> keeps the letter U+00E9 of \<open>http://s/p/caf\<e9>\<close>, where the
  claim has \<open>caf_\<close>; and for \<open>http://s\<close>, which has no path segment, two processes
  with different string hashes give different identifiers.
\<close>

theorem generate_product_id_counterexample:
  "generate_product_id shop proc_forward (''http://s/p/caf'' @ [CHR 0xE9]) = ''caf'' @ [CHR 0xE9]
   \<and> \<not> ascii_id_char (CHR 0xE9)
   \<and> generate_product_id shop proc_forward ''http://s'' = ''8''
   \<and> generate_product_id shop proc_backward ''http://s'' = ''-8''"
  by code_simp

text \<open>
  C6, amended: when the path of the URL, as \<open>urlparse\<close> gives it, has a non-empty
  segment, the identifier is the last such segment with every character that is neither
  a word character of \<open>\w\<close> (a Unicode letter or digit, or the underscore) nor a hyphen
  replaced by an underscore; for a segment of ASCII characters these are the characters
  outside \<open>[A-Za-z0-9_-]\<close>; the identifier is then a function of the URL alone, the same
  in every process.  When the path has no non-empty segment the identifier is \<open>str\<close> of
  the process's \<open>hash\<close> of the whole URL.
\<close>

theorem generate_product_id_spec:
  "(\<forall>pre seg n.
      path (urlparse w url) = pre @ seg @ replicate n CHR ''/'' \<and> seg \<noteq> []
      \<and> CHR ''/'' \<notin> set seg \<and> (pre = [] \<or> last pre = CHR ''/'')
      \<longrightarrow> generate_product_id w pr url
            = map (\<lambda>c. if re_word c \<or> c = CHR ''-'' then c else CHR ''_'') seg
          \<and> generate_product_id w pr' url = generate_product_id w pr url
          \<and> ((\<forall>c \<in> set seg. (of_char c :: nat) < 128)
              \<longrightarrow> generate_product_id w pr url
                    = map (\<lambda>c. if ascii_id_char c then c else CHR ''_'') seg))
   \<and> (set (path (urlparse w url)) \<subseteq> {CHR ''/''}
      \<longrightarrow> generate_product_id w pr url = py_str_int (py_hash pr url))"
proof (intro conjI allI impI)
  fix pre seg n
  assume h: "path (urlparse w url) = pre @ seg @ replicate n CHR ''/'' \<and> seg \<noteq> []
      \<and> CHR ''/'' \<notin> set seg \<and> (pre = [] \<or> last pre = CHR ''/'')"
  then obtain ps where ps:
    "filter (\<lambda>p. p \<noteq> []) (py_split CHR ''/'' (path (urlparse w url))) = ps @ [seg]"
    using path_parts_prefix [of seg "CHR ''/''" pre n] by auto
  show code: "generate_product_id w pr url
      = map (\<lambda>c. if re_word c \<or> c = CHR ''-'' then c else CHR ''_'') seg" for pr
    using ps by (simp add: generate_product_id_def Let_def)
  show "generate_product_id w pr' url = generate_product_id w pr url"
    using ps by (simp add: generate_product_id_def Let_def)
  assume "\<forall>c \<in> set seg. (of_char c :: nat) < 128"
  then have "map (\<lambda>c. if re_word c \<or> c = CHR ''-'' then c else CHR ''_'') seg
      = map (\<lambda>c. if ascii_id_char c then c else CHR ''_'') seg"
    using ascii_word_char by (intro map_cong) auto
  with code show "generate_product_id w pr url
      = map (\<lambda>c. if ascii_id_char c then c else CHR ''_'') seg"
    by simp
next
  assume "set (path (urlparse w url)) \<subseteq> {CHR ''/''}"
  from path_parts_only_slashes [OF this]
  show "generate_product_id w pr url = py_str_int (py_hash pr url)"
    by (simp add: generate_product_id_def Let_def)
qed

lemma path_titan_dash: "path (urlparse shop ''http://s/p/titan-watch-123'') = ''/p/titan-watch-123''"
  by code_simp

lemma path_titan_space:
  "path (urlparse shop ''http://s/p/titan watch!123/'') = ''/p/titan watch!123/''"
  by code_simp

lemma path_no_segment: "path (urlparse shop ''http://s'') = []"
  by code_simp

theorem generate_product_id_spec_witness:
  "generate_product_id shop proc_forward ''http://s/p/titan-watch-123'' = ''titan-watch-123''
   \<and> generate_product_id shop proc_backward ''http://s/p/titan-watch-123'' = ''titan-watch-123''
   \<and> generate_product_id shop proc_forward ''http://s/p/titan watch!123/'' = ''titan_watch_123''
   \<and> generate_product_id shop proc_forward ''http://s'' = ''8''"
proof -
  have a: "path (urlparse shop ''http://s/p/titan-watch-123'')
        = ''/p/'' @ ''titan-watch-123'' @ replicate 0 CHR ''/'' \<and> ''titan-watch-123'' \<noteq> []
      \<and> CHR ''/'' \<notin> set ''titan-watch-123'' \<and> (''/p/'' = [] \<or> last ''/p/'' = CHR ''/'')"
    by (simp add: path_titan_dash)
  have b: "path (urlparse shop ''http://s/p/titan watch!123/'')
        = ''/p/'' @ ''titan watch!123'' @ replicate 1 CHR ''/'' \<and> ''titan watch!123'' \<noteq> []
      \<and> CHR ''/'' \<notin> set ''titan watch!123'' \<and> (''/p/'' = [] \<or> last ''/p/'' = CHR ''/'')"
    by (simp add: path_titan_space)
  have c: "set (path (urlparse shop ''http://s'')) \<subseteq> {CHR ''/''}"
    by (simp add: path_no_segment)
  have ascii_a: "\<forall>c \<in> set ''titan-watch-123''. (of_char c :: nat) < 128" by simp
  have ascii_b: "\<forall>c \<in> set ''titan watch!123''. (of_char c :: nat) < 128" by simp
  have m1: "map (\<lambda>c. if ascii_id_char c then c else CHR ''_'') ''titan-watch-123'' = ''titan-watch-123''"
    by code_simp
  have m2: "map (\<lambda>c. if ascii_id_char c then c else CHR ''_'') ''titan watch!123'' = ''titan_watch_123''"
    by code_simp
  have h: "py_str_int (py_hash proc_forward ''http://s'') = ''8''"
    by code_simp
  note t1 = generate_product_id_spec
    [of shop "''http://s/p/titan-watch-123''" proc_forward proc_backward, THEN conjunct1,
     rule_format, of "''/p/''" "''titan-watch-123''" 0, OF a]
  have "generate_product_id shop proc_forward ''http://s/p/titan-watch-123''
      = map (\<lambda>c. if ascii_id_char c then c else CHR ''_'') ''titan-watch-123''"
    by (rule mp [OF t1 [THEN conjunct2, THEN conjunct2] ascii_a])
  then have r1: "generate_product_id shop proc_forward ''http://s/p/titan-watch-123''
      = ''titan-watch-123''"
    by (simp only: m1)
  have r1': "generate_product_id shop proc_backward ''http://s/p/titan-watch-123''
      = ''titan-watch-123''"
    using t1 [THEN conjunct2, THEN conjunct1] r1 by (rule trans)
  note t2 = generate_product_id_spec
    [of shop "''http://s/p/titan watch!123/''" proc_forward proc_forward, THEN conjunct1,
     rule_format, of "''/p/''" "''titan watch!123''" 1, OF b]
  have "generate_product_id shop proc_forward ''http://s/p/titan watch!123/''
      = map (\<lambda>c. if ascii_id_char c then c else CHR ''_'') ''titan watch!123''"
    by (rule mp [OF t2 [THEN conjunct2, THEN conjunct2] ascii_b])
  then have r2: "generate_product_id shop proc_forward ''http://s/p/titan watch!123/''
      = ''titan_watch_123''"
    by (simp only: m2)
  have "generate_product_id shop proc_forward ''http://s''
      = py_str_int (py_hash proc_forward ''http://s'')"
    by (rule mp [OF generate_product_id_spec
          [of shop "''http://s''" proc_forward proc_forward, THEN conjunct2] c])
  then have r3: "generate_product_id shop proc_forward ''http://s'' = ''8''"
    by (simp only: h)
  from r1 r1' r2 r3 show ?thesis by (intro conjI)
qed

section \<open>Fields of a product\<close>

lemma extract_product_Inr:
  "extract_product w pr cfg url = Inr p \<Longrightarrow> fetch w url = Inr soup
   \<Longrightarrow> product_detail (selectors cfg) = Some ds
   \<Longrightarrow> p_currency p = currency_field soup (extraction cfg) (sel_currency ds)
       \<and> p_features p = features_field soup (sel_features ds)"
  by (auto simp: extract_product_def Let_def split: option.splits sum.splits)

text \<open>
  C4, as stated: without a \<open>features\<close> entry in the schema the record's \<open>features\<close> is
  the empty sequence, not absent.  On the product page of the shop, under a schema with
  no such entry, the record has no \<open>features\<close> key at all.
\<close>

theorem features_absent_counterexample:
  "extract_product shop proc_forward bare_config ''http://s/p/a''
   = Inr \<lparr>p_id = ''a'', p_product_url = ''http://s/p/a'', p_category = ''watches'',
          p_name = Some (Some ''Watch A''), p_description = None, p_brand = None,
          p_sub_category = None, p_price = Some (Some (Price_float ''8999.00'')),
          p_currency = None, p_attributes = None, p_features = None, p_image_url = None,
          p_image_urls_all = None\<rparr>"
  by code_simp

text \<open>
  C4, amended: for every successfully extracted detail page, if the schema contains a
  \<open>features\<close> entry the record's \<open>features\<close> field is the multi-mode extraction result
  of that selector, which for a plain selector is the text of every matched element
  with the empty strings dropped (and the empty sequence when the selector fails); if
  the schema contains no \<open>features\<close> entry the record has no \<open>features\<close> field.
\<close>

theorem features_of_extracted_product:
  "extract_product w pr cfg url = Inr p \<Longrightarrow> fetch w url = Inr soup
   \<Longrightarrow> product_detail (selectors cfg) = Some ds
   \<Longrightarrow> (sel_features ds = None \<longrightarrow> p_features p = None)
       \<and> (\<forall>sel. sel_features ds = Some sel \<longrightarrow>
             p_features p = Some (extract_text_all soup sel)
             \<and> (attr_match sel = None \<longrightarrow>
                  p_features p
                  = Some (filter (\<lambda>t. t \<noteq> [])
                            (case soup sel of Inl e \<Rightarrow> [] | Inr elements \<Rightarrow> map get_text elements))
                  \<and> [] \<notin> set (extract_text_all soup sel)))"
  by (auto dest!: extract_product_Inr simp: features_field_def extract_text_all_def Let_def
        split: sum.splits)

lemma fetch_shop_a: "fetch shop ''http://s/p/a'' = Inr (product_page ''Watch A'' ''INR 8,999.00'')"
  by (simp add: shop_def site_def)

lemma product_detail_shop: "product_detail (selectors shop_config) = Some shop_detail"
  by (simp add: shop_config_def)

lemma product_detail_bare:
  "product_detail (selectors bare_config)
   = Some (shop_detail\<lparr>sel_currency := Some ''.currency'', sel_features := None\<rparr>)"
  by (simp add: bare_config_def)

lemma extract_shop_a:
  "extract_product shop proc_forward shop_config ''http://s/p/a''
   = Inr \<lparr>p_id = ''a'', p_product_url = ''http://s/p/a'', p_category = ''watches'',
          p_name = Some (Some ''Watch A''), p_description = None, p_brand = None,
          p_sub_category = None, p_price = Some (Some (Price_float ''8999.00'')),
          p_currency = Some ''INR'', p_attributes = None,
          p_features = Some [''steel'', ''quartz''], p_image_url = None,
          p_image_urls_all = None\<rparr>"
  by code_simp

lemma extract_bare_a:
  "extract_product shop proc_forward bare_config ''http://s/p/a''
   = Inr \<lparr>p_id = ''a'', p_product_url = ''http://s/p/a'', p_category = ''watches'',
          p_name = Some (Some ''Watch A''), p_description = None, p_brand = None,
          p_sub_category = None, p_price = Some (Some (Price_float ''8999.00'')),
          p_currency = None, p_attributes = None, p_features = None, p_image_url = None,
          p_image_urls_all = None\<rparr>"
  by code_simp

lemma attr_match_li: "attr_match ''li'' = None"
  by code_simp

lemma li_of_product_page:
  "(case product_page ''Watch A'' ''INR 8,999.00'' ''li'' of
      Inl e \<Rightarrow> [] | Inr elements \<Rightarrow> map get_text elements) = [''steel'', [], ''quartz'']"
  by (simp add: product_page_def page_def text_node_def)

theorem features_of_extracted_product_witness:
  "sel_features shop_detail = Some ''li'' \<and> attr_match ''li'' = None
   \<and> (case product_page ''Watch A'' ''INR 8,999.00'' ''li'' of
         Inl e \<Rightarrow> [] | Inr elements \<Rightarrow> map get_text elements) = [''steel'', [], ''quartz'']
   \<and> p_features \<lparr>p_id = ''a'', p_product_url = ''http://s/p/a'', p_category = ''watches'',
          p_name = Some (Some ''Watch A''), p_description = None, p_brand = None,
          p_sub_category = None, p_price = Some (Some (Price_float ''8999.00'')),
          p_currency = Some ''INR'', p_attributes = None,
          p_features = Some [''steel'', ''quartz''], p_image_url = None,
          p_image_urls_all = None\<rparr>
       = Some (filter (\<lambda>t. t \<noteq> []) [''steel'', [], ''quartz''])
   \<and> sel_features (shop_detail\<lparr>sel_currency := Some ''.currency'', sel_features := None\<rparr>) = None
   \<and> p_features \<lparr>p_id = ''a'', p_product_url = ''http://s/p/a'', p_category = ''watches'',
          p_name = Some (Some ''Watch A''), p_description = None, p_brand = None,
          p_sub_category = None, p_price = Some (Some (Price_float ''8999.00'')),
          p_currency = None, p_attributes = None, p_features = None, p_image_url = None,
          p_image_urls_all = None\<rparr> = None"
proof -
  have s: "sel_features shop_detail = Some ''li''"
    by (simp add: shop_detail_def)
  have n: "sel_features (shop_detail\<lparr>sel_currency := Some ''.currency'', sel_features := None\<rparr>)
      = None"
    by simp
  note t1 = features_of_extracted_product
    [OF extract_shop_a fetch_shop_a product_detail_shop, THEN conjunct2, rule_format, OF s]
  note t2 = features_of_extracted_product
    [OF extract_bare_a fetch_shop_a product_detail_bare, THEN conjunct1, rule_format, OF n]
  from mp [OF t1 [THEN conjunct2] attr_match_li, THEN conjunct1]
  have f: "p_features \<lparr>p_id = ''a'', p_product_url = ''http://s/p/a'', p_category = ''watches'',
          p_name = Some (Some ''Watch A''), p_description = None, p_brand = None,
          p_sub_category = None, p_price = Some (Some (Price_float ''8999.00'')),
          p_currency = Some ''INR'', p_attributes = None,
          p_features = Some [''steel'', ''quartz''], p_image_url = None,
          p_image_urls_all = None\<rparr>
       = Some (filter (\<lambda>t. t \<noteq> []) [''steel'', [], ''quartz''])"
    by (simp only: li_of_product_page)
  from s attr_match_li li_of_product_page f n t2 show ?thesis
    by (intro conjI)
qed

text \<open>
  C5, as stated: the currency is the default currency whenever the currency selector
  has no result.  On the product page of the shop the selector \<open>.currency\<close> matches
  nothing and the default currency is \<open>USD\<close>, yet the record's currency is \<open>None\<close>.
\<close>

theorem currency_default_counterexample:
  "opt_default_currency (extraction bare_config) = ''USD''
   \<and> extract_text (product_page ''Watch A'' ''INR 8,999.00'') ''.currency'' = None
   \<and> extract_product shop proc_forward bare_config ''http://s/p/a''
     = Inr \<lparr>p_id = ''a'', p_product_url = ''http://s/p/a'', p_category = ''watches'',
          p_name = Some (Some ''Watch A''), p_description = None, p_brand = None,
          p_sub_category = None, p_price = Some (Some (Price_float ''8999.00'')),
          p_currency = None, p_attributes = None, p_features = None, p_image_url = None,
          p_image_urls_all = None\<rparr>"
  by code_simp

text \<open>
  C5, amended: for every successfully extracted detail page, the record's \<open>currency\<close>
  field equals the currency selector's single-mode result, present or not, when the
  schema has a \<open>currency\<close> entry, and equals \<open>extraction_opts.default_currency\<close>
  (\<open>INR\<close> when the configuration names none) when the schema has no \<open>currency\<close> entry.
\<close>

theorem currency_of_extracted_product:
  "extract_product w pr cfg url = Inr p \<Longrightarrow> fetch w url = Inr soup
   \<Longrightarrow> product_detail (selectors cfg) = Some ds
   \<Longrightarrow> (\<forall>sel. sel_currency ds = Some sel \<longrightarrow> p_currency p = extract_text soup sel)
       \<and> (sel_currency ds = None \<longrightarrow>
             p_currency p = Some (opt_default_currency (extraction cfg))
             \<and> (extraction cfg = None \<longrightarrow> p_currency p = Some ''INR'')
             \<and> (\<forall>e c. extraction cfg = Some e \<and> default_currency e = Some c
                  \<longrightarrow> p_currency p = Some c))"
  by (auto dest!: extract_product_Inr simp: currency_field_def opt_default_currency_def)

theorem currency_of_extracted_product_witness:
  "sel_currency shop_detail = None \<and> extraction shop_config = None
   \<and> p_currency \<lparr>p_id = ''a'', p_product_url = ''http://s/p/a'', p_category = ''watches'',
          p_name = Some (Some ''Watch A''), p_description = None, p_brand = None,
          p_sub_category = None, p_price = Some (Some (Price_float ''8999.00'')),
          p_currency = Some ''INR'', p_attributes = None,
          p_features = Some [''steel'', ''quartz''], p_image_url = None,
          p_image_urls_all = None\<rparr> = Some ''INR''
   \<and> sel_currency (shop_detail\<lparr>sel_currency := Some ''.currency'', sel_features := None\<rparr>)
     = Some ''.currency''
   \<and> p_currency \<lparr>p_id = ''a'', p_product_url = ''http://s/p/a'', p_category = ''watches'',
          p_name = Some (Some ''Watch A''), p_description = None, p_brand = None,
          p_sub_category = None, p_price = Some (Some (Price_float ''8999.00'')),
          p_currency = None, p_attributes = None, p_features = None, p_image_url = None,
          p_image_urls_all = None\<rparr>
     = extract_text (product_page ''Watch A'' ''INR 8,999.00'') ''.currency''"
proof -
  have n: "sel_currency shop_detail = None"
    by (simp add: shop_detail_def)
  have e: "extraction shop_config = None"
    by (simp add: shop_config_def)
  have s: "sel_currency (shop_detail\<lparr>sel_currency := Some ''.currency'', sel_features := None\<rparr>)
      = Some ''.currency''"
    by simp
  note t1 = currency_of_extracted_product
    [OF extract_shop_a fetch_shop_a product_detail_shop, THEN conjunct2, rule_format, OF n]
  note t2 = currency_of_extracted_product
    [OF extract_bare_a fetch_shop_a product_detail_bare, THEN conjunct1, rule_format, OF s]
  from n e mp [OF t1 [THEN conjunct2, THEN conjunct1] e] s t2 show ?thesis
    by (intro conjI)
qed

section \<open>Pagination\<close>


text \<open>
  C8, as stated: below \<open>max_pages\<close> the function returns the start URL rebuilt with
  identical scheme, host, path and fragment.  For the start URL \<open>http:foo\<close>, in which
  \<open>urlparse\<close> finds the path \<open>foo\<close> and no host, it returns \<open>http:///foo?page=2\<close>, whose
  path is \<open>/foo\<close>; and for a start URL whose host opens a bracket that it does not
  close it returns nothing: \<open>urlparse\<close> raises.
\<close>

theorem get_next_page_url_counterexample:
  "pagination_type paged_config = ''url_param''
   \<and> 2 \<le> pagination_max_pages paged_config
   \<and> get_next_page_url shop paged_config ''http:foo'' 2 = Inr (Some ''http:///foo?page=2'')
   \<and> path (urlparse shop ''http:foo'') = ''foo''
   \<and> path (urlparse shop ''http:///foo?page=2'') = ''/foo''
   \<and> get_next_page_url shop paged_config ''http://[s/l'' 2 = Inl ''Invalid IPv6 URL''"
  by code_simp















section \<open>What the loops change\<close>

lemma scrape_product_links_eq:
  "scrape_product_links w url s =
     ((case listing_links w (config s) url of Inl e \<Rightarrow> [] | Inr links \<Rightarrow> links),
      s\<lparr>errors := errors s @
            (case listing_links w (config s) url of
               Inl e \<Rightarrow> [\<lparr>err_url = url, err_error = e, err_type = Listing\<rparr>]
             | Inr links \<Rightarrow> []),
        requests := requests s @ [url]\<rparr>)"
  by (simp add: scrape_product_links_def Let_def split: sum.splits)

lemma scrape_product_detail_eq:
  "rate_limit (config s) = None \<Longrightarrow>
   scrape_product_detail w pr url s =
     ((case extract_product w pr (config s) url of Inl e \<Rightarrow> None | Inr p \<Rightarrow> Some p),
      s\<lparr>errors := errors s @
            (case extract_product w pr (config s) url of
               Inl e \<Rightarrow> [\<lparr>err_url = url, err_error = e, err_type = Product\<rparr>]
             | Inr p \<Rightarrow> []),
        requests := requests s @ [url]\<rparr>)"
  by (simp add: scrape_product_detail_def Let_def split: sum.splits)

lemma scrape_product_detail_rate_fails:
  "rate_limit (config s) = Some e \<Longrightarrow>
   scrape_product_detail w pr url s =
     (None, s\<lparr>errors := errors s @ [\<lparr>err_url = url, err_error = e, err_type = Product\<rparr>]\<rparr>)"
  by (simp add: scrape_product_detail_def)

text \<open>
  A listing loop reads the configuration only, and appends to \<open>errors\<close> and \<open>requests\<close>:
  from any scraper with the same configuration it ends the same way, finds the same
  URLs and appends the same records.
\<close>

lemma listing_loop_frame:
  "\<exists>r urls' es rq. \<forall>t. config t = config (s :: scraper) \<longrightarrow>
      listing_loop w limit start_url current_url page_num (urls, t)
      = (r, urls', t\<lparr>errors := errors t @ es, requests := requests t @ rq\<rparr>)"
proof (induction w limit start_url current_url page_num "(urls, s)" arbitrary: urls s
    rule: listing_loop.induct)
  case (1 w limit start_url current_url page_num urls s)
  show ?case
  proof (cases "\<exists>cur. current_url = Some cur \<and> cur \<noteq> [] \<and> int (length urls) < limit")
    case False
    then have "\<forall>t. listing_loop w limit start_url current_url page_num (urls, t)
        = (None, urls, t\<lparr>errors := errors t @ [], requests := requests t @ []\<rparr>)"
      by (auto simp: listing_loop.simps split: option.splits)
    then show ?thesis by blast
  next
    case True
    then obtain cur where cur: "current_url = Some cur" "cur \<noteq> []" "int (length urls) < limit"
      by blast
    obtain links s' where step: "scrape_product_links w cur s = (links, s')"
      by (cases "scrape_product_links w cur s")
    then have cfg: "config s' = config s"
      by (rule config_scrape_product_links)
    let ?e1 = "case listing_links w (config s) cur of
                 Inl e \<Rightarrow> [\<lparr>err_url = cur, err_error = e, err_type = Listing\<rparr>]
               | Inr links \<Rightarrow> []"
    have links: "links = (case listing_links w (config s) cur of Inl e \<Rightarrow> [] | Inr l \<Rightarrow> l)"
      using step by (simp add: scrape_product_links_eq)
    have st: "scrape_product_links w cur t
        = (links, t\<lparr>errors := errors t @ ?e1, requests := requests t @ [cur]\<rparr>)"
      if "config t = config s" for t
      using that links by (simp add: scrape_product_links_eq)
    let ?next = "get_next_page_url w (config s) start_url (page_num + 1)"
    show ?thesis
    proof (cases ?next)
      case (Inl x)
      have "\<forall>t. config t = config s \<longrightarrow>
          listing_loop w limit start_url current_url page_num (urls, t)
          = (Some x, set_update urls links,
             t\<lparr>errors := errors t @ ?e1, requests := requests t @ [cur]\<rparr>)"
        using cur Inl by (subst listing_loop.simps) (simp add: st)
      then show ?thesis by blast
    next
      case (Inr next_url)
      show ?thesis
      proof (cases "wait_before_page (config s) next_url")
        case (Some x)
        have "\<forall>t. config t = config s \<longrightarrow>
            listing_loop w limit start_url current_url page_num (urls, t)
            = (Some x, set_update urls links,
               t\<lparr>errors := errors t @ ?e1, requests := requests t @ [cur]\<rparr>)"
          using cur Inr Some by (subst listing_loop.simps) (simp add: st)
        then show ?thesis by blast
      next
        case None
        have n': "get_next_page_url w (config s') start_url (page_num + 1) = Inr next_url"
          using Inr cfg by simp
        have w': "wait_before_page (config s') next_url = None"
          using None cfg by simp
        from "1.hyps" [OF cur(1) conjI [OF cur(2,3)] step [symmetric] n' w']
        obtain r urls' es rq where ih: "\<And>t. config t = config s' \<Longrightarrow>
            listing_loop w limit start_url next_url (page_num + 1) (set_update urls links, t)
            = (r, urls', t\<lparr>errors := errors t @ es, requests := requests t @ rq\<rparr>)"
          by blast
        have "\<forall>t. config t = config s \<longrightarrow>
            listing_loop w limit start_url current_url page_num (urls, t)
            = (r, urls', t\<lparr>errors := errors t @ (?e1 @ es),
                              requests := requests t @ (cur # rq)\<rparr>)"
        proof (intro allI impI)
          fix t :: scraper
          assume t: "config t = config s"
          let ?t1 = "t\<lparr>errors := errors t @ ?e1, requests := requests t @ [cur]\<rparr>"
          have "listing_loop w limit start_url current_url page_num (urls, t)
              = listing_loop w limit start_url next_url (page_num + 1)
                  (set_update urls links, ?t1)"
            using cur st [OF t] Inr None t by (subst listing_loop.simps) simp
          also have "\<dots> = (r, urls', ?t1\<lparr>errors := errors ?t1 @ es,
                                          requests := requests ?t1 @ rq\<rparr>)"
            using ih [of ?t1] t cfg by simp
          finally show "listing_loop w limit start_url current_url page_num (urls, t)
              = (r, urls', t\<lparr>errors := errors t @ (?e1 @ es),
                                requests := requests t @ (cur # rq)\<rparr>)"
            by simp
        qed
        then show ?thesis by blast
      qed
    qed
  qed
qed

lemma discover_from_frame:
  "\<exists>r urls' es rq. \<forall>t. config t = cfg \<longrightarrow>
      discover_from w limit starts (urls, t)
      = (r, urls', t\<lparr>errors := errors t @ es, requests := requests t @ rq\<rparr>)"
proof (induction starts arbitrary: urls)
  case Nil
  have "\<forall>t. config t = cfg \<longrightarrow>
      discover_from w limit [] (urls, t)
      = (None, urls, t\<lparr>errors := errors t @ [], requests := requests t @ []\<rparr>)"
    by simp
  then show ?case by blast
next
  case (Cons start starts)
  obtain s0 :: scraper where s0: "config s0 = cfg"
    by (metis scraper.select_convs(1))
  from listing_loop_frame [of s0 w limit start "Some start" 1 urls] s0
  obtain r1 urls1 es1 rq1 where first: "\<And>t. config t = cfg \<Longrightarrow>
      listing_loop w limit start (Some start) 1 (urls, t)
      = (r1, urls1, t\<lparr>errors := errors t @ es1, requests := requests t @ rq1\<rparr>)"
    by auto
  show ?case
  proof (cases r1)
    case (Some x)
    have "\<forall>t. config t = cfg \<longrightarrow>
        discover_from w limit (start # starts) (urls, t)
        = (Some x, urls1, t\<lparr>errors := errors t @ es1, requests := requests t @ rq1\<rparr>)"
      using first Some by simp
    then show ?thesis by blast
  next
    case None
    from Cons.IH [of urls1]
    obtain r urls' es rq where rest: "\<And>t. config t = cfg \<Longrightarrow>
        discover_from w limit starts (urls1, t)
        = (r, urls', t\<lparr>errors := errors t @ es, requests := requests t @ rq\<rparr>)"
      by blast
    have "\<forall>t. config t = cfg \<longrightarrow>
        discover_from w limit (start # starts) (urls, t)
        = (r, urls', t\<lparr>errors := errors t @ (es1 @ es),
                          requests := requests t @ (rq1 @ rq)\<rparr>)"
      using first rest None by simp
    then show ?thesis by blast
  qed
qed

lemma discover_frame:
  "\<exists>r urls' es rq. \<forall>t. config t = config (s :: scraper) \<longrightarrow>
      discover w limit t
      = (r, urls', t\<lparr>errors := errors t @ es, requests := requests t @ rq\<rparr>)"
proof -
  from discover_from_frame [of "config s" w limit "start_urls (config s)" "[]"]
  obtain r urls' es rq where "\<And>t. config t = config s \<Longrightarrow>
      discover_from w limit (start_urls (config s)) ([], t)
      = (r, urls', t\<lparr>errors := errors t @ es, requests := requests t @ rq\<rparr>)"
    by blast
  then have "\<forall>t. config t = config s \<longrightarrow>
      discover w limit t
      = (r, urls', t\<lparr>errors := errors t @ es, requests := requests t @ rq\<rparr>)"
    by (simp add: discover_def)
  then show ?thesis by blast
qed

text \<open>When the wait raises, every URL of the detail loop fails without a request.\<close>

lemma detail_loop_rate_fails:
  "rate_limit (config s) = Some e \<Longrightarrow>
   detail_loop w pr urls s
   = s\<lparr>errors := errors s
          @ map (\<lambda>url. \<lparr>err_url = url, err_error = e, err_type = Product\<rparr>)
              (if opt_skip_on_error (config s) then urls else take 1 urls)\<rparr>"
proof (induction urls arbitrary: s)
  case Nil
  then show ?case by simp
next
  case (Cons url urls)
  let ?s' = "s\<lparr>errors := errors s @ [\<lparr>err_url = url, err_error = e, err_type = Product\<rparr>]\<rparr>"
  have "rate_limit (config ?s') = Some e" using Cons.prems by simp
  from Cons.IH [OF this] show ?case
    using Cons.prems by (simp add: scrape_product_detail_rate_fails)
qed

lemma detail_loop_frame:
  "\<exists>ps es k. \<forall>t. config t = cfg \<longrightarrow>
      detail_loop w pr urls t
      = t\<lparr>products := products t @ ps, errors := errors t @ es,
           requests := requests t @ take k urls\<rparr>"
proof (cases "rate_limit cfg")
  case (Some e)
  have "\<forall>t. config t = cfg \<longrightarrow>
      detail_loop w pr urls t
      = t\<lparr>products := products t @ [],
           errors := errors t
             @ map (\<lambda>url. \<lparr>err_url = url, err_error = e, err_type = Product\<rparr>)
                 (if opt_skip_on_error cfg then urls else take 1 urls),
           requests := requests t @ take 0 urls\<rparr>"
    using Some by (auto simp: detail_loop_rate_fails)
  then show ?thesis by blast
next
  case None
  show ?thesis
  proof (induction urls)
    case Nil
    have "\<forall>t. config t = cfg \<longrightarrow>
        detail_loop w pr [] t
        = t\<lparr>products := products t @ [], errors := errors t @ [],
             requests := requests t @ take 0 []\<rparr>"
      by simp
    then show ?case by blast
  next
    case (Cons url urls)
    then obtain ps es k where ih: "\<And>t. config t = cfg \<Longrightarrow>
        detail_loop w pr urls t
        = t\<lparr>products := products t @ ps, errors := errors t @ es,
             requests := requests t @ take k urls\<rparr>"
      by blast
    show ?case
    proof (cases "extract_product w pr cfg url")
      case (Inr p)
      have "\<forall>t. config t = cfg \<longrightarrow>
          detail_loop w pr (url # urls) t
          = t\<lparr>products := products t @ (p # ps), errors := errors t @ es,
               requests := requests t @ take (Suc k) (url # urls)\<rparr>"
        using Inr ih None by (simp add: scrape_product_detail_eq)
      then show ?thesis by blast
    next
      case (Inl e)
      show ?thesis
      proof (cases "opt_skip_on_error cfg")
        case True
        have "\<forall>t. config t = cfg \<longrightarrow>
            detail_loop w pr (url # urls) t
            = t\<lparr>products := products t @ ps,
                 errors := errors t
                   @ (\<lparr>err_url = url, err_error = e, err_type = Product\<rparr> # es),
                 requests := requests t @ take (Suc k) (url # urls)\<rparr>"
          using Inl True ih None by (simp add: scrape_product_detail_eq)
        then show ?thesis by blast
      next
        case False
        have "\<forall>t. config t = cfg \<longrightarrow>
            detail_loop w pr (url # urls) t
            = t\<lparr>products := products t @ [],
                 errors := errors t @ [\<lparr>err_url = url, err_error = e, err_type = Product\<rparr>],
                 requests := requests t @ take (Suc 0) (url # urls)\<rparr>"
          using Inl False None by (simp add: scrape_product_detail_eq)
        then show ?thesis by blast
      qed
    qed
  qed
qed

section \<open>Product pages that fail\<close>


lemma config_detail_loop: "config (detail_loop w pr urls s) = config s"
  using detail_loop_frame [of "config s" w pr urls] by auto















section \<open>Calling scrape again\<close>

lemma scrape_frame:
  "\<exists>ps es rq. \<forall>t. config t = config (s :: scraper) \<longrightarrow>
      scrape w pr limit t
      = t\<lparr>products := products t @ ps, errors := errors t @ es,
           requests := requests t @ rq\<rparr>"
proof -
  from discover_frame [of s w limit]
  obtain r urls' es1 rq1 where d: "\<And>t. config t = config s \<Longrightarrow>
      discover w limit t
      = (r, urls', t\<lparr>errors := errors t @ es1, requests := requests t @ rq1\<rparr>)"
    by blast
  show ?thesis
  proof (cases r)
    case (Some e)
    have "\<forall>t. config t = config s \<longrightarrow>
        scrape w pr limit t
        = t\<lparr>products := products t @ [], errors := errors t @ es1,
             requests := requests t @ rq1\<rparr>"
      using d Some by (simp add: scrape_def scrape_run_def)
    then show ?thesis by blast
  next
    case None
    from detail_loop_frame [of "config s" w pr "py_slice_to (set_order pr urls') limit"]
    obtain ps es2 k where l: "\<And>t. config t = config s \<Longrightarrow>
        detail_loop w pr (py_slice_to (set_order pr urls') limit) t
        = t\<lparr>products := products t @ ps, errors := errors t @ es2,
             requests := requests t @ take k (py_slice_to (set_order pr urls') limit)\<rparr>"
      by blast
    have "\<forall>t. config t = config s \<longrightarrow>
        scrape w pr limit t
        = t\<lparr>products := products t @ ps, errors := errors t @ (es1 @ es2),
             requests := requests t
               @ (rq1 @ take k (py_slice_to (set_order pr urls') limit))\<rparr>"
      using d l None by (simp add: scrape_def scrape_run_def)
    then show ?thesis by blast
  qed
qed

lemma scrape_appends:
  "config (scrape w pr limit s) = config s
   \<and> products (scrape w pr limit s)
     = products s @ products (scrape w pr limit (s\<lparr>products := [], errors := []\<rparr>))
   \<and> errors (scrape w pr limit s)
     = errors s @ errors (scrape w pr limit (s\<lparr>products := [], errors := []\<rparr>))"
proof -
  from scrape_frame [of s w pr limit]
  obtain ps es rq where f: "\<And>t. config t = config s \<Longrightarrow>
      scrape w pr limit t
      = t\<lparr>products := products t @ ps, errors := errors t @ es,
           requests := requests t @ rq\<rparr>"
    by blast
  from f [of s] f [of "s\<lparr>products := [], errors := []\<rparr>"] show ?thesis
    by simp
qed

text \<open>
  C10: the accumulators are empty after construction and \<open>scrape\<close> only appends to them:
  a second call on the same scraper leaves the products and errors of the first call
  followed by those the second call collects (the ones it would collect on a fresh
  scraper of the same configuration), and \<open>get_results\<close> reports the sums.  This holds
  also for a call that ends by raising: \<open>scrape\<close> is the scraper the call leaves.
\<close>

theorem scrape_twice_accumulates:
  "init raw = Inr s0 \<Longrightarrow> s1 = scrape w pr limit s0 \<Longrightarrow> s2 = scrape w' pr' limit' s1 \<Longrightarrow>
   products s0 = [] \<and> errors s0 = []
   \<and> products s2 = products s1 @ products (scrape w' pr' limit' s0)
   \<and> errors s2 = errors s1 @ errors (scrape w' pr' limit' s0)
   \<and> total_products (get_results s2)
     = total_products (get_results s1) + total_products (get_results (scrape w' pr' limit' s0))
   \<and> total_errors (get_results s2)
     = total_errors (get_results s1) + total_errors (get_results (scrape w' pr' limit' s0))"
proof -
  assume i: "init raw = Inr s0" and s1: "s1 = scrape w pr limit s0"
    and s2: "s2 = scrape w' pr' limit' s1"
  from i have e: "products s0 = []" "errors s0 = []" "requests s0 = []"
    by (auto simp: init_def split: sum.splits)
  from scrape_appends [of w pr limit s0] s1 have c: "config s1 = config s0"
    by simp
  from scrape_frame [of s0 w' pr' limit']
  obtain ps es rq where f: "\<And>t. config t = config s0 \<Longrightarrow>
      scrape w' pr' limit' t
      = t\<lparr>products := products t @ ps, errors := errors t @ es,
           requests := requests t @ rq\<rparr>"
    by blast
  from f [of s0] f [of s1] c e s2
  have p: "products s2 = products s1 @ products (scrape w' pr' limit' s0)"
    and r: "errors s2 = errors s1 @ errors (scrape w' pr' limit' s0)"
    by simp_all
  from e p r show ?thesis
    by (simp add: get_results_def)
qed

lemma init_shop: "init shop_raw = Inr (new_scraper shop_config)"
  by (simp add: init_def load_config_def shop_raw_def new_scraper_def shop_config_def)

lemma first_call_totals:
  "total_products (get_results (scrape shop proc_forward 10 (new_scraper shop_config))) = 2
   \<and> total_errors (get_results (scrape shop proc_forward 10 (new_scraper shop_config))) = 0"
  by code_simp

lemma second_call_alone_totals:
  "total_products (get_results (scrape shop_a_down proc_forward 10 (new_scraper shop_config)))
     = 1
   \<and> total_errors (get_results (scrape shop_a_down proc_forward 10 (new_scraper shop_config)))
     = 1"
  by code_simp

theorem scrape_twice_accumulates_witness:
  "init shop_raw = Inr (new_scraper shop_config)
   \<and> total_products (get_results (scrape shop proc_forward 10 (new_scraper shop_config))) = 2
   \<and> total_errors (get_results (scrape shop proc_forward 10 (new_scraper shop_config))) = 0
   \<and> total_products
       (get_results (scrape shop_a_down proc_forward 10
                       (scrape shop proc_forward 10 (new_scraper shop_config)))) = 3
   \<and> total_errors
       (get_results (scrape shop_a_down proc_forward 10
                       (scrape shop proc_forward 10 (new_scraper shop_config)))) = 1"
proof -
  note t = scrape_twice_accumulates
    [where w = shop and pr = proc_forward and limit = 10 and w' = shop_a_down
       and pr' = proc_forward and limit' = 10, OF init_shop refl refl]
  from t have "total_products
       (get_results (scrape shop_a_down proc_forward 10
                       (scrape shop proc_forward 10 (new_scraper shop_config))))
      = total_products (get_results (scrape shop proc_forward 10 (new_scraper shop_config)))
        + total_products
            (get_results (scrape shop_a_down proc_forward 10 (new_scraper shop_config)))"
    by (elim conjE)
  then have a: "total_products
       (get_results (scrape shop_a_down proc_forward 10
                       (scrape shop proc_forward 10 (new_scraper shop_config)))) = 3"
    by (simp add: first_call_totals second_call_alone_totals)
  from t have "total_errors
       (get_results (scrape shop_a_down proc_forward 10
                       (scrape shop proc_forward 10 (new_scraper shop_config))))
      = total_errors (get_results (scrape shop proc_forward 10 (new_scraper shop_config)))
        + total_errors
            (get_results (scrape shop_a_down proc_forward 10 (new_scraper shop_config)))"
    by (elim conjE)
  then have b: "total_errors
       (get_results (scrape shop_a_down proc_forward 10
                       (scrape shop proc_forward 10 (new_scraper shop_config)))) = 1"
    by (simp add: first_call_totals second_call_alone_totals)
  from init_shop first_call_totals a b show ?thesis by (intro conjI) simp_all
qed

section \<open>Listing pages that fail\<close>

















section \<open>The detail pages a run attempts\<close>

























end
